theory Spec2Isabelle
  imports Main "HOL-Library.AList"
begin

section \<open>Values, exceptions and strings\<close>

text \<open>
  The program is Python. A Python \<open>str\<close> is modelled as a \<open>string\<close> (a list of
  characters with code points below 256), a dictionary as an association list in insertion
  order (\<open>AList.update\<close> overwrites an existing key in place and appends a new one, as a
  Python \<open>dict\<close> does), a raised exception as the \<open>Inl\<close> of a sum.

  \<open>pyval\<close> is a value as \<open>json.loads\<close> or \<open>yaml.safe_load\<close> produces it, and as a tool
  call carries it in its \<open>arguments\<close> field. A float is kept by its printed form only.
  \<open>PObject ty s\<close> is a value of another type, with the type's name and the value's printed
  form: the dates and time stamps YAML builds from texts like \<open>2024-01-01\<close>. Such a value
  can be hashed, cannot be sliced and has no \<open>get\<close>. (Sets and binary data, which YAML
  builds only for an explicit tag, are left out.) A mapping is kept with its string keys
  only: the program looks up string keys and nothing else. Dictionary keys are compared
  structurally; Python moreover identifies numbers of equal value across \<open>bool\<close>, \<open>int\<close>
  and \<open>float\<close>, which makes no difference for keys that are strings.
\<close>

datatype pyval =
    PNone
  | PBool bool
  | PInt int
  | PFloat string
  | PStr string
  | PList "pyval list"
  | PDict "(string \<times> pyval) list"
  | PObject string string

datatype exn =
    RuntimeError string
  | ValueError string
  | AttributeError string
  | TypeError string
  | IndexError string
  | JSONDecodeError string
  | FileNotFoundError string
  | NotADirectoryError string
  | PermissionError string
  | Raised string

text \<open>An \<open>exn\<close> is an instance of a subclass of \<open>Exception\<close>, which is what the
  \<open>except Exception\<close> clauses of the program catch. \<open>Raised msg\<close> is any other such
  exception of an external call (file system, YAML, backend API, a tool handler), known by
  its message. \<open>exn_str\<close> is Python's \<open>str(e)\<close>. \<open>JSONDecodeError\<close> is the class of that
  name only; the plain \<open>ValueError\<close> it derives from is \<open>ValueError\<close>.\<close>

fun exn_str :: "exn \<Rightarrow> string" where
  "exn_str (RuntimeError m) = m"
| "exn_str (ValueError m) = m"
| "exn_str (AttributeError m) = m"
| "exn_str (TypeError m) = m"
| "exn_str (IndexError m) = m"
| "exn_str (JSONDecodeError m) = m"
| "exn_str (FileNotFoundError m) = m"
| "exn_str (NotADirectoryError m) = m"
| "exn_str (PermissionError m) = m"
| "exn_str (Raised m) = m"

text \<open>\<open>type(v).__name__\<close>.\<close>

fun type_name :: "pyval \<Rightarrow> string" where
  "type_name PNone = ''NoneType''"
| "type_name (PBool b) = ''bool''"
| "type_name (PInt i) = ''int''"
| "type_name (PFloat r) = ''float''"
| "type_name (PStr s) = ''str''"
| "type_name (PList xs) = ''list''"
| "type_name (PDict kvs) = ''dict''"
| "type_name (PObject ty s) = ty"

fun is_dict :: "pyval \<Rightarrow> bool" where
  "is_dict (PDict kvs) = True"
| "is_dict v = False"

fun is_str :: "pyval \<Rightarrow> bool" where
  "is_str (PStr s) = True"
| "is_str v = False"

text \<open>Lists and dictionaries cannot be hashed: using one as a dictionary key, or testing
  it with \<open>in\<close> against a dictionary, raises \<open>TypeError\<close>.\<close>

fun hashable :: "pyval \<Rightarrow> bool" where
  "hashable (PList xs) = False"
| "hashable (PDict kvs) = False"
| "hashable v = True"

definition unhashable_type :: "pyval \<Rightarrow> exn" where
  "unhashable_type v =
     TypeError (''unhashable type: '' @ [CHR 0x27] @ type_name v @ [CHR 0x27])"

text \<open>The exception of \<open>v.get(...)\<close> for a value that is no dictionary.\<close>

definition no_attribute_get :: "pyval \<Rightarrow> exn" where
  "no_attribute_get v =
     AttributeError ([CHR 0x27] @ type_name v @ [CHR 0x27] @ '' object has no attribute ''
                     @ [CHR 0x27] @ ''get'' @ [CHR 0x27])"

text \<open>The exception of the slice \<open>v[:80]\<close>, if there is one: strings and lists can be
  sliced. (For a dictionary the slice is taken as a key, which cannot be hashed; from
  Python 3.12 on it can, and the exception is a \<open>KeyError\<close> instead.)\<close>

fun slice_error :: "pyval \<Rightarrow> exn option" where
  "slice_error (PStr s) = None"
| "slice_error (PList xs) = None"
| "slice_error (PDict kvs) =
     Some (TypeError (''unhashable type: '' @ [CHR 0x27] @ ''slice'' @ [CHR 0x27]))"
| "slice_error v =
     Some (TypeError ([CHR 0x27] @ type_name v @ [CHR 0x27] @ '' object is not subscriptable''))"

text \<open>\<open>d.get(key, default)\<close> on a dictionary.\<close>

definition dict_get :: "('k \<times> 'v) list \<Rightarrow> 'k \<Rightarrow> 'v \<Rightarrow> 'v" where
  "dict_get d k dflt = (case map_of d k of None \<Rightarrow> dflt | Some v \<Rightarrow> v)"

text \<open>The characters \<open>str.strip()\<close> removes, among the code points below 256.\<close>

definition py_whitespace :: "char list" where
  "py_whitespace =
     [CHR 0x09, CHR 0x0A, CHR 0x0B, CHR 0x0C, CHR 0x0D, CHR 0x1C, CHR 0x1D, CHR 0x1E,
      CHR 0x1F, CHR 0x20, CHR 0x85, CHR 0xA0]"

definition is_space :: "char \<Rightarrow> bool" where
  "is_space c = (c \<in> set py_whitespace)"

definition strip :: "string \<Rightarrow> string" where
  "strip s = rev (dropWhile is_space (rev (dropWhile is_space s)))"

definition startswith :: "string \<Rightarrow> string \<Rightarrow> bool" where
  "startswith s p = (take (length p) s = p)"

text \<open>\<open>s.find(sep)\<close>: the index of the leftmost occurrence of \<open>sep\<close> in \<open>s\<close>.\<close>

fun find_sub :: "string \<Rightarrow> string \<Rightarrow> nat option" where
  "find_sub sep [] = (if sep = [] then Some 0 else None)"
| "find_sub sep (c # cs) =
     (if startswith (c # cs) sep then Some 0 else map_option Suc (find_sub sep cs))"

text \<open>\<open>s.split(sep, maxsplit)\<close> for a non-empty separator: cut at the leftmost occurrences,
  at most \<open>maxsplit\<close> times.\<close>

fun split_max :: "nat \<Rightarrow> string \<Rightarrow> string \<Rightarrow> string list" where
  "split_max 0 sep s = [s]"
| "split_max (Suc n) sep s =
     (case find_sub sep s of
        None \<Rightarrow> [s]
      | Some i \<Rightarrow> take i s # split_max n sep (drop (i + length sep) s))"

definition nl :: string where
  "nl = [CHR 0x0A]"

section \<open>The environment: library calls and the outside world\<close>

text \<open>
  What the program calls but does not define is a parameter. The world \<open>'w\<close> is the state
  of everything outside the process (files, the backend); a call that acts on it returns
  the world it leaves.
  \<^item> \<open>json_loads strict s\<close> is \<open>json.loads(s, strict=strict)\<close>: the value, or the
    exception. A text that is not JSON gives a \<open>JSONDecodeError\<close>; the library raises
    other exceptions as well, a plain \<open>ValueError\<close> for an integer literal of more than
    4300 digits and a \<open>RecursionError\<close> for brackets nested too deeply.
  \<^item> \<open>yaml_safe_load s\<close> is \<open>yaml.safe_load(s)\<close>: the value (\<open>PNone\<close> for an empty
    document), or the exception.
  \<^item> \<open>py_repr v\<close> is \<open>str(v)\<close> for a value that is not a string.
  \<^item> \<open>fs_exists\<close>, \<open>fs_is_dir\<close>, \<open>fs_iterdir\<close>, \<open>fs_read_text\<close>, \<open>fs_join\<close> and
    \<open>fs_name\<close> are \<open>Path.exists\<close>, \<open>Path.is_dir\<close>, \<open>Path.iterdir\<close>,
    \<open>Path.read_text(encoding="utf-8")\<close>, \<open>/\<close> and \<open>Path.name\<close>; a path is its string.
    Reading can fail (a missing file, a directory, bytes that are not UTF-8), and so can
    listing (a path that is no directory, a directory that may not be read). The two
    tests answer for every path.
  \<^item> \<open>run_handler name args\<close> is \<open>await self.tools[name](**args)\<close> for one of the five
    registered tools: the handler's text, or the exception it (or the binding of
    \<open>**args\<close>) raised.
\<close>

record 'w env =
  json_loads :: "bool \<Rightarrow> string \<Rightarrow> exn + pyval"
  yaml_safe_load :: "string \<Rightarrow> exn + pyval"
  py_repr :: "pyval \<Rightarrow> string"
  fs_exists :: "string \<Rightarrow> 'w \<Rightarrow> bool"
  fs_is_dir :: "string \<Rightarrow> 'w \<Rightarrow> bool"
  fs_iterdir :: "string \<Rightarrow> 'w \<Rightarrow> exn + string list"
  fs_read_text :: "string \<Rightarrow> 'w \<Rightarrow> (exn + string) \<times> 'w"
  fs_join :: "string \<Rightarrow> string \<Rightarrow> string"
  fs_name :: "string \<Rightarrow> string"
  run_handler :: "string \<Rightarrow> pyval \<Rightarrow> 'w \<Rightarrow> (exn + string) \<times> 'w"

text \<open>\<open>f"{v}"\<close>: a string prints as itself.\<close>

definition py_format :: "'w env \<Rightarrow> pyval \<Rightarrow> string" where
  "py_format env v = (case v of PStr s \<Rightarrow> s | _ \<Rightarrow> py_repr env v)"

section \<open>Tool-argument parsing (\<open>BaseAgent._parse_tool_args\<close>)\<close>

text \<open>The result is the pair \<open>(args, error_message)\<close> of the source, Python's \<open>None\<close> in
  the first place being \<open>PNone\<close>, or the exception that leaves the function: the two
  \<open>except\<close> clauses catch \<open>JSONDecodeError\<close> and nothing else.\<close>

definition parse_tool_args ::
  "'w env \<Rightarrow> pyval \<Rightarrow> string \<Rightarrow> exn + pyval \<times> string option" where
  "parse_tool_args env arguments function_name =
     (case arguments of
        PNone \<Rightarrow> Inr (PDict [], None)
      | PDict kvs \<Rightarrow> Inr (arguments, None)
      | PStr s \<Rightarrow>
          if strip s = [] then Inr (PDict [], None)
          else (case json_loads env True s of
             Inr v \<Rightarrow> Inr (v, None)
           | Inl (JSONDecodeError e0) \<Rightarrow>
              (case json_loads env False s of
                 Inr v \<Rightarrow> Inr (v, None)
               | Inl (JSONDecodeError e) \<Rightarrow>
                   (let snippet = strip s;
                        snippet = (if length snippet > 200
                                   then take 200 snippet @ ''...(truncated)'' else snippet)
                    in Inr (PNone, Some (''Error: Invalid JSON arguments for tool ''
                                     @ [CHR 0x27] @ function_name @ [CHR 0x27] @ '': '' @ e
                                     @ ''. Raw: '' @ snippet)))
               | Inl other \<Rightarrow> Inl other)
           | Inl other \<Rightarrow> Inl other)
      | _ \<Rightarrow>
          Inr (PNone, Some (''Error: Tool '' @ [CHR 0x27] @ function_name @ [CHR 0x27]
                        @ '' arguments must be a JSON string, got ''
                        @ type_name arguments @ ''.'')))"

section \<open>The skill catalog (\<open>SkillLoader\<close>)\<close>

text \<open>A descriptor as \<open>_load_skill_metadata\<close> builds it. The name, the description and
  the license are whatever the front matter holds under these keys, of any type.\<close>

record skill_meta =
  sm_name :: pyval
  sm_description :: pyval
  sm_path :: string
  sm_license :: pyval

record loader =
  skills_directory :: string
  skill_metadata :: "(pyval \<times> skill_meta) list"
  skill_content :: "(pyval \<times> string) list"
  skill_resources :: "(pyval \<times> (string \<times> string) list) list"

text \<open>What \<open>discover_skills\<close> prints about its outcome: the warning that no skill folder
  was found, the line \<open>Discovered: <name>\<close> for a bundle that was registered, the line
  \<open>Failed to load <folder>: <exception>\<close> for a bundle whose \<open>try\<close> block raised.\<close>

datatype log_event =
    NoSkillFolders
  | Discovered string
  | FailedToLoad string string

text \<open>\<open>SkillLoader.__init__\<close>: the only check is that the path exists.\<close>

definition SkillLoader_init :: "'w env \<Rightarrow> string \<Rightarrow> 'w \<Rightarrow> exn + loader" where
  "SkillLoader_init env dir w =
     (if \<not> fs_exists env dir w
      then Inl (ValueError (''Skills directory not found: '' @ dir))
      else Inr \<lparr>skills_directory = dir, skill_metadata = [], skill_content = [],
                skill_resources = []\<rparr>)"

text \<open>Lines 92 to 98 of \<open>SkillLoader._load_skill_metadata\<close>: the front matter text
  is loaded as YAML and the descriptor is built from it. \<open>get\<close> on a document that is
  not a mapping raises \<open>AttributeError\<close>.\<close>

definition parse_frontmatter :: "'w env \<Rightarrow> string \<Rightarrow> string \<Rightarrow> exn + skill_meta option" where
  "parse_frontmatter env skill_folder text =
     (case yaml_safe_load env text of
        Inl e \<Rightarrow> Inl e
      | Inr (PDict frontmatter) \<Rightarrow>
          Inr (Some \<lparr>sm_name = dict_get frontmatter ''name'' (PStr (fs_name env skill_folder)),
                     sm_description = dict_get frontmatter ''description'' (PStr []),
                     sm_path = skill_folder,
                     sm_license = dict_get frontmatter ''license'' (PStr [])\<rparr>)
      | Inr other \<Rightarrow> Inl (no_attribute_get other))"

text \<open>\<open>SkillLoader._load_skill_metadata\<close>. \<open>Inr None\<close> is the \<open>return None\<close> of a file
  that does not start with the delimiter.\<close>

definition load_skill_metadata ::
  "'w env \<Rightarrow> string \<Rightarrow> 'w \<Rightarrow> (exn + skill_meta option) \<times> 'w" where
  "load_skill_metadata env skill_folder w =
     (case fs_read_text env (fs_join env skill_folder ''SKILL.md'') w of
        (Inl e, w') \<Rightarrow> (Inl e, w')
      | (Inr content, w') \<Rightarrow>
          if startswith content ''---'' then
            (let parts = split_max 2 ''---'' content in
             if length parts \<ge> 2 then (parse_frontmatter env skill_folder (parts ! 1), w')
             else (Inr None, w'))
          else (Inr None, w'))"

text \<open>The first loop of \<open>discover_skills\<close>: the entries of the root that are directories
  holding a \<open>SKILL.md\<close>. The listing is outside every \<open>try\<close>.\<close>

definition skill_folders :: "'w env \<Rightarrow> string \<Rightarrow> 'w \<Rightarrow> exn + string list" where
  "skill_folders env dir w =
     (case fs_iterdir env dir w of
        Inl e \<Rightarrow> Inl e
      | Inr items \<Rightarrow>
          Inr (filter (\<lambda>item. fs_is_dir env item w
                              \<and> fs_exists env (fs_join env item ''SKILL.md'') w) items))"

text \<open>The second loop: each folder in its own \<open>try\<close>; an exception is printed and the
  loop goes on. The \<open>try\<close> block registers the descriptor under its name (line 64, which
  hashes the name) and then prints the name and the first 80 characters of the
  description (line 66, which slices the description): an exception of the slice is
  reported for a bundle that is registered already.\<close>

fun load_folders ::
  "'w env \<Rightarrow> string list \<Rightarrow> loader \<times> log_event list \<times> 'w \<Rightarrow> loader \<times> log_event list \<times> 'w" where
  "load_folders env [] acc = acc"
| "load_folders env (skill_folder # rest) (ld, log, w) =
     (case load_skill_metadata env skill_folder w of
        (Inl e, w') \<Rightarrow>
          load_folders env rest
            (ld, log @ [FailedToLoad (fs_name env skill_folder) (exn_str e)], w')
      | (Inr None, w') \<Rightarrow> load_folders env rest (ld, log, w')
      | (Inr (Some metadata), w') \<Rightarrow>
          (let skill_name = sm_name metadata in
           if \<not> hashable skill_name
           then load_folders env rest
                  (ld, log @ [FailedToLoad (fs_name env skill_folder)
                                (exn_str (unhashable_type skill_name))], w')
           else
             (let ld' = ld\<lparr>skill_metadata :=
                            AList.update skill_name metadata (skill_metadata ld)\<rparr>;
                  log' = log @ [Discovered (py_format env skill_name)]
              in case slice_error (sm_description metadata) of
                   None \<Rightarrow> load_folders env rest (ld', log', w')
                 | Some e \<Rightarrow>
                     load_folders env rest
                       (ld', log' @ [FailedToLoad (fs_name env skill_folder) (exn_str e)], w'))))"

text \<open>\<open>SkillLoader.discover_skills\<close>: the returned mapping or the exception, the loader,
  the printed events, the world.\<close>

definition discover_skills ::
  "'w env \<Rightarrow> loader \<Rightarrow> 'w \<Rightarrow>
     (exn + (pyval \<times> skill_meta) list) \<times> loader \<times> log_event list \<times> 'w" where
  "discover_skills env ld w =
     (case skill_folders env (skills_directory ld) w of
        Inl e \<Rightarrow> (Inl e, ld, [], w)
      | Inr folders \<Rightarrow>
          if folders = [] then (Inr [], ld, [NoSkillFolders], w)
          else (case load_folders env folders (ld, [], w) of
                  (ld', log, w') \<Rightarrow> (Inr (skill_metadata ld'), ld', log, w')))"

text \<open>\<open>SkillLoader.activate_skill\<close>: the body, or \<open>None\<close>. The membership test hashes
  the name.\<close>

definition SkillLoader_activate_skill ::
  "'w env \<Rightarrow> loader \<Rightarrow> pyval \<Rightarrow> 'w \<Rightarrow> (exn + string option) \<times> loader \<times> 'w" where
  "SkillLoader_activate_skill env ld skill_name w =
     (if \<not> hashable skill_name then (Inl (unhashable_type skill_name), ld, w)
      else (case map_of (skill_metadata ld) skill_name of
        None \<Rightarrow> (Inr None, ld, w)
      | Some metadata \<Rightarrow>
          (case map_of (skill_content ld) skill_name of
             Some content \<Rightarrow> (Inr (Some content), ld, w)
           | None \<Rightarrow>
               (case fs_read_text env (fs_join env (sm_path metadata) ''SKILL.md'') w of
                  (Inr content, w') \<Rightarrow>
                    (Inr (Some content),
                     ld\<lparr>skill_content := AList.update skill_name content (skill_content ld)\<rparr>,
                     w')
                | (Inl e, w') \<Rightarrow> (Inr None, ld, w')))))"

text \<open>\<open>SkillLoader.load_resource\<close>. The existence test comes before the cache.\<close>

definition load_resource ::
  "'w env \<Rightarrow> loader \<Rightarrow> pyval \<Rightarrow> string \<Rightarrow> 'w \<Rightarrow> (exn + string option) \<times> loader \<times> 'w" where
  "load_resource env ld skill_name resource_path w =
     (if \<not> hashable skill_name then (Inl (unhashable_type skill_name), ld, w)
      else (case map_of (skill_metadata ld) skill_name of
        None \<Rightarrow> (Inr None, ld, w)
      | Some metadata \<Rightarrow>
          (let resource_file = fs_join env (sm_path metadata) resource_path in
           if \<not> fs_exists env resource_file w then (Inr None, ld, w)
           else
             (let ld1 = (if map_of (skill_resources ld) skill_name = None
                         then ld\<lparr>skill_resources :=
                                  AList.update skill_name [] (skill_resources ld)\<rparr>
                         else ld);
                  cache = dict_get (skill_resources ld1) skill_name []
              in case map_of cache resource_path of
                   Some content \<Rightarrow> (Inr (Some content), ld1, w)
                 | None \<Rightarrow>
                     (case fs_read_text env resource_file w of
                        (Inr content, w') \<Rightarrow>
                          (Inr (Some content),
                           ld1\<lparr>skill_resources :=
                                  AList.update skill_name
                                    (AList.update resource_path content cache)
                                    (skill_resources ld1)\<rparr>,
                           w')
                      | (Inl e, w') \<Rightarrow> (Inr None, ld1, w'))))))"

definition list_skills :: "loader \<Rightarrow> pyval list" where
  "list_skills ld = map fst (skill_metadata ld)"

text \<open>\<open>SkillLoader.get_skill_description\<close>; Python's \<open>None\<close> is \<open>PNone\<close>.\<close>

definition get_skill_description :: "loader \<Rightarrow> pyval \<Rightarrow> pyval" where
  "get_skill_description ld skill_name =
     (case map_of (skill_metadata ld) skill_name of
        Some metadata \<Rightarrow> sm_description metadata
      | None \<Rightarrow> PNone)"

section \<open>The tool registry (\<open>BaseToolExecutor\<close>)\<close>

text \<open>The keys of \<open>self.tools\<close>.\<close>

definition tool_names :: "string list" where
  "tool_names = [''read_file'', ''write_file'', ''list_files'', ''execute_bash'',
                 ''create_directory'']"

text \<open>\<open>BaseToolExecutor.execute_tool\<close>: always a text.\<close>

definition execute_tool :: "'w env \<Rightarrow> string \<Rightarrow> pyval \<Rightarrow> 'w \<Rightarrow> string \<times> 'w" where
  "execute_tool env tool_name args w =
     (if tool_name \<notin> set tool_names
      then (''Error: Unknown tool '' @ [CHR 0x27] @ tool_name @ [CHR 0x27], w)
      else (case run_handler env tool_name args w of
              (Inr result, w') \<Rightarrow> (result, w')
            | (Inl e, w') \<Rightarrow> (''Error executing '' @ tool_name @ '': '' @ exn_str e, w')))"

section \<open>Messages and the model gateway (\<open>LLMClient\<close>)\<close>

record tool_call =
  tc_id :: string
  tc_name :: string
  tc_arguments :: pyval

text \<open>A conversation message, by its \<open>role\<close>. An assistant message has a \<open>content\<close>
  (possibly \<open>None\<close>) and may have the key \<open>tool_calls\<close>; a tool message has
  \<open>tool_call_id\<close>, \<open>name\<close> and \<open>content\<close>.\<close>

datatype message =
    SystemMsg string
  | UserMsg string
  | AssistantMsg "string option" "tool_call list option"
  | ToolMsg string string string

text \<open>A gateway is what the agent holds as \<open>llm_client\<close>: its \<open>chat(messages, tools)\<close>,
  the tools given by their names.\<close>

type_synonym 'w gateway = "message list \<Rightarrow> string list \<Rightarrow> 'w \<Rightarrow> (exn + message list) \<times> 'w"

text \<open>The backend's answer to \<open>client.chat.completions.create\<close>: the \<open>message\<close> of each
  choice, with its \<open>content\<close> and its \<open>tool_calls\<close> (\<open>None\<close> or a list).\<close>

record choice_message =
  cm_content :: "string option"
  cm_tool_calls :: "tool_call list option"

type_synonym 'w backend =
  "message list \<Rightarrow> string list option \<Rightarrow> 'w \<Rightarrow> (exn + choice_message list) \<times> 'w"

text \<open>\<open>LLMClient.chat\<close>. \<open>client\<close> is \<open>self.client\<close>. Everything after the first test
  runs inside \<open>try ... except Exception\<close>.\<close>

definition LLMClient_chat :: "'w backend option \<Rightarrow> 'w gateway" where
  "LLMClient_chat client messages tools w =
     (case client of
        None \<Rightarrow> (Inl (RuntimeError ''Client not initialized''), w)
      | Some create \<Rightarrow>
          (case create messages (if tools \<noteq> [] then Some tools else None) w of
             (Inl e, w') \<Rightarrow> (Inr [AssistantMsg (Some (''Error: '' @ exn_str e)) None], w')
           | (Inr [], w') \<Rightarrow>
               (Inr [AssistantMsg (Some (''Error: '' @ ''list index out of range'')) None], w')
           | (Inr (m # others), w') \<Rightarrow>
               (case cm_tool_calls m of
                  Some (tc # tcs) \<Rightarrow> (Inr [AssistantMsg (cm_content m) (Some (tc # tcs))], w')
                | _ \<Rightarrow> (Inr [AssistantMsg (cm_content m) None], w'))))"

section \<open>The agent (\<open>BaseAgent\<close>)\<close>

record 'w agent =
  system_prompt :: string
  max_rounds :: int
  skill_loader :: "loader option"
  activated_skills :: "(pyval \<times> string) list"
  llm_client :: "'w gateway option"

text \<open>\<open>BaseAgent.activate_skill\<close>, on the value the tool call gave as \<open>skill_name\<close>.
  The membership test hashes the value.\<close>

definition BaseAgent_activate_skill ::
  "'w env \<Rightarrow> 'w agent \<Rightarrow> pyval \<Rightarrow> 'w \<Rightarrow> (exn + bool) \<times> 'w agent \<times> 'w" where
  "BaseAgent_activate_skill env ag skill_name w =
     (case skill_loader ag of
        None \<Rightarrow> (Inr False, ag, w)
      | Some ld \<Rightarrow>
          if \<not> hashable skill_name then (Inl (unhashable_type skill_name), ag, w)
          else if map_of (activated_skills ag) skill_name \<noteq> None then (Inr True, ag, w)
          else (case SkillLoader_activate_skill env ld skill_name w of
             (Inl e, ld', w') \<Rightarrow> (Inl e, ag\<lparr>skill_loader := Some ld'\<rparr>, w')
           | (Inr (Some content), ld', w') \<Rightarrow>
               if content \<noteq> []
               then (Inr True,
                     ag\<lparr>skill_loader := Some ld',
                        activated_skills :=
                          AList.update skill_name content (activated_skills ag)\<rparr>,
                     w')
               else (Inr False, ag\<lparr>skill_loader := Some ld'\<rparr>, w')
           | (Inr None, ld', w') \<Rightarrow> (Inr False, ag\<lparr>skill_loader := Some ld'\<rparr>, w')))"

text \<open>\<open>BaseAgent._handle_use_skill\<close>.\<close>

definition handle_use_skill ::
  "'w env \<Rightarrow> 'w agent \<Rightarrow> pyval \<Rightarrow> pyval \<Rightarrow> 'w \<Rightarrow> (exn + string) \<times> 'w agent \<times> 'w" where
  "handle_use_skill env ag skill_name reason w =
     (case BaseAgent_activate_skill env ag skill_name w of
        (Inl e, ag', w') \<Rightarrow> (Inl e, ag', w')
      | (Inr True, ag', w') \<Rightarrow>
          (Inr (''Skill '' @ [CHR 0x27] @ py_format env skill_name @ [CHR 0x27]
                @ '' activated successfully. You now have access to its full instructions and capabilities.''),
           ag', w')
      | (Inr False, ag', w') \<Rightarrow>
          (Inr (''Failed to activate skill '' @ [CHR 0x27] @ py_format env skill_name
                @ [CHR 0x27] @ ''. Please check if the skill exists.''),
           ag', w'))"

text \<open>\<open>BaseAgent.get_available_skills\<close>: name and description of every discovered
  skill.\<close>

definition get_available_skills :: "'w agent \<Rightarrow> (pyval \<times> pyval) list" where
  "get_available_skills ag =
     (case skill_loader ag of
        None \<Rightarrow> []
      | Some ld \<Rightarrow> map (\<lambda>skill_name. (skill_name, get_skill_description ld skill_name))
                    (list_skills ld))"

text \<open>The two blocks \<open>chat\<close> appends to the system prompt.\<close>

definition skill_list :: "'w env \<Rightarrow> (pyval \<times> pyval) list \<Rightarrow> string" where
  "skill_list env available_skills =
     nl @ nl @ ''## Available Skills (Level 1)'' @ nl @ nl
     @ ''You have access to the following skills. To use a skill, call the use_skill function.''
     @ nl @ nl
     @ concat (map (\<lambda>(name, description).
                 ''- **'' @ py_format env name @ ''**: '' @ py_format env description @ nl)
               available_skills)"

definition skill_instructions :: "'w env \<Rightarrow> (pyval \<times> string) list \<Rightarrow> string" where
  "skill_instructions env activated =
     nl @ nl @ ''## Activated Skills (Level 2)'' @ nl @ nl
     @ concat (map (\<lambda>(skill_name, skill_content).
                 ''### Skill: '' @ py_format env skill_name @ nl @ nl @ skill_content @ nl @ nl)
               activated)"

text \<open>The content of \<open>full_messages[0]\<close> as \<open>chat\<close> builds it before its loop.\<close>

definition system_content :: "'w env \<Rightarrow> 'w agent \<Rightarrow> string" where
  "system_content env ag =
     (let content = system_prompt ag;
          content = (if skill_loader ag \<noteq> None \<and> get_available_skills ag \<noteq> []
                     then content @ skill_list env (get_available_skills ag) else content);
          content = (if activated_skills ag \<noteq> []
                     then content @ skill_instructions env (activated_skills ag) else content)
      in content)"

text \<open>The state of one \<open>chat\<close> call: the agent, \<open>full_messages\<close>, the world, and (for
  observation only) the conversation each gateway call was given, in order.\<close>

record 'w chat_state =
  st_agent :: "'w agent"
  full_messages :: "message list"
  st_world :: "'w"
  gateway_calls :: "message list list"

text \<open>The body of \<open>for tool_call in last_message["tool_calls"]\<close>: parse, dispatch, append
  the tool message. An exception leaves the loop and \<open>chat\<close>.\<close>

definition process_tool_call ::
  "'w env \<Rightarrow> tool_call \<Rightarrow> 'w chat_state \<Rightarrow> exn option \<times> 'w chat_state" where
  "process_tool_call env tool_call st =
     (let function_name = tc_name tool_call;
          tool_message = (\<lambda>result. ToolMsg (tc_id tool_call) function_name result)
      in case parse_tool_args env (tc_arguments tool_call) function_name of
           Inl e \<Rightarrow> (Some e, st)
         | Inr (args, parse_error) \<Rightarrow>
             if parse_error \<noteq> None \<and> parse_error \<noteq> Some []
             then (None, st\<lparr>full_messages :=
                                full_messages st @ [tool_message (the parse_error)]\<rparr>)
             else if function_name = ''use_skill'' then
               (case args of
                  PDict d \<Rightarrow>
                    (case handle_use_skill env (st_agent st)
                            (dict_get d ''skill_name'' (PStr []))
                            (dict_get d ''reason'' (PStr [])) (st_world st) of
                       (Inl e, ag', w') \<Rightarrow> (Some e, st\<lparr>st_agent := ag', st_world := w'\<rparr>)
                     | (Inr result, ag', w') \<Rightarrow>
                         (None, st\<lparr>st_agent := ag', st_world := w',
                                   full_messages := full_messages st @ [tool_message result]\<rparr>))
                | _ \<Rightarrow> (Some (no_attribute_get args), st))
             else
               (case execute_tool env function_name args (st_world st) of
                  (result, w') \<Rightarrow>
                    (None, st\<lparr>st_world := w',
                              full_messages := full_messages st @ [tool_message result]\<rparr>)))"

fun process_tool_calls ::
  "'w env \<Rightarrow> tool_call list \<Rightarrow> 'w chat_state \<Rightarrow> exn option \<times> 'w chat_state" where
  "process_tool_calls env [] st = (None, st)"
| "process_tool_calls env (tool_call # rest) st =
     (case process_tool_call env tool_call st of
        (Some e, st') \<Rightarrow> (Some e, st')
      | (None, st') \<Rightarrow> process_tool_calls env rest st')"

text \<open>The tools offered in a round, by name.\<close>

definition offered_tools :: "'w agent \<Rightarrow> string list" where
  "offered_tools ag = (if skill_loader ag \<noteq> None then [''use_skill''] else []) @ tool_names"

text \<open>One pass through the body of \<open>while round_count < self.max_rounds\<close>: the
  gateway call, then the tool calls of the reply. \<open>Some (Inr m)\<close> is \<open>return m\<close>,
  \<open>Some (Inl e)\<close> an exception that leaves \<open>chat\<close>, and \<open>None\<close> means that control goes
  back to the loop's test (the \<open>continue\<close>, or the end of the body when the last message
  is no assistant message).\<close>

definition chat_round ::
  "'w env \<Rightarrow> 'w gateway \<Rightarrow> 'w chat_state \<Rightarrow> (exn + message) option \<times> 'w chat_state" where
  "chat_round env gw st =
     (case gw (full_messages st) (offered_tools (st_agent st)) (st_world st) of
        (Inl e, w') \<Rightarrow>
          (Some (Inl e), st\<lparr>st_world := w',
                            gateway_calls := gateway_calls st @ [full_messages st]\<rparr>)
      | (Inr response_messages, w') \<Rightarrow>
          (let st1 = st\<lparr>st_world := w',
                        gateway_calls := gateway_calls st @ [full_messages st],
                        full_messages := full_messages st @ response_messages\<rparr>
           in if full_messages st1 = []
              then (Some (Inl (IndexError ''list index out of range'')), st1)
              else (case last (full_messages st1) of
                 AssistantMsg content (Some tool_calls) \<Rightarrow>
                   (case process_tool_calls env tool_calls st1 of
                      (Some e, st2) \<Rightarrow> (Some (Inl e), st2)
                    | (None, st2) \<Rightarrow> (None, st2))
               | AssistantMsg content None \<Rightarrow> (Some (Inr (AssistantMsg content None)), st1)
               | _ \<Rightarrow> (None, st1))))"

text \<open>The loop of \<open>chat\<close> and the \<open>return\<close> after it. The result is the returned message
  or the exception, with the state at that moment.\<close>

function chat_loop ::
  "'w env \<Rightarrow> 'w gateway \<Rightarrow> int \<Rightarrow> int \<Rightarrow> 'w chat_state \<Rightarrow> (exn + message) \<times> 'w chat_state" where
  "chat_loop env gw maxr round_count st =
     (if round_count < maxr then
        (case chat_round env gw st of
           (Some outcome, st') \<Rightarrow> (outcome, st')
         | (None, st') \<Rightarrow> chat_loop env gw maxr (round_count + 1) st')
      else
        (if full_messages st \<noteq> [] then (Inr (last (full_messages st)), st)
         else (Inr (AssistantMsg (Some ''Error: Max reasoning rounds reached'') None), st)))"
  by pat_completeness auto
termination
  by (relation "measure (\<lambda>(env, gw, maxr, round_count, st). nat (maxr - round_count))") auto

text \<open>\<open>BaseAgent.chat\<close>.\<close>

definition BaseAgent_chat ::
  "'w env \<Rightarrow> 'w agent \<Rightarrow> message list \<Rightarrow> 'w \<Rightarrow> (exn + message) \<times> 'w chat_state" where
  "BaseAgent_chat env ag messages w =
     (case llm_client ag of
        None \<Rightarrow>
          (Inl (RuntimeError ''LLM client not set. Call set_llm_client() first''),
           \<lparr>st_agent = ag, full_messages = [], st_world = w, gateway_calls = []\<rparr>)
      | Some gw \<Rightarrow>
          chat_loop env gw (max_rounds ag) 0
            \<lparr>st_agent = ag,
             full_messages = SystemMsg (system_content env ag) # messages,
             st_world = w, gateway_calls = []\<rparr>)"

section \<open>A sample environment\<close>

text \<open>
  A small concrete world on which the definitions can be run. The root \<open>skills\<close> holds a
  valid bundle \<open>pptx\<close>, a directory without marker file, a bundle whose front matter does
  not parse, a bundle whose front matter is never closed, and a plain file. The root
  \<open>drafts\<close> holds one bundle, which does not parse. The root \<open>more\<close> holds a bundle with
  an empty description and one whose name is a list. The directory \<open>locked\<close> exists but
  may not be listed. The world is the list of what has happened to the files so far:
  \<open>Read p\<close> each time the program opens \<open>p\<close> for reading, \<open>Removed p\<close> when somebody else
  has removed the file \<open>p\<close>. The JSON and YAML functions answer as the Python libraries do
  on the few texts used here.
\<close>

datatype fs_event = Read string | Removed string

definition quoted :: "string \<Rightarrow> string" where
  "quoted s = [CHR 0x27] @ s @ [CHR 0x27]"

definition dq :: string where
  "dq = [CHR 0x22]"

definition pptx_front_matter :: string where
  "pptx_front_matter = nl @ ''name: pptx'' @ nl @ ''description: create PowerPoint files'' @ nl"

definition pptx_skill_md :: string where
  "pptx_skill_md = ''---'' @ pptx_front_matter @ ''---'' @ nl @ ''Use python-pptx to build slides.'' @ nl"

definition open_front_matter :: string where
  "open_front_matter = nl @ ''name: open'' @ nl @ ''description: never closed'' @ nl"

definition nodesc_front_matter :: string where
  "nodesc_front_matter = nl @ ''name: nodesc'' @ nl @ ''description:'' @ nl"

definition listname_front_matter :: string where
  "listname_front_matter = nl @ ''name: [a]'' @ nl"

definition sample_files :: "(string \<times> string) list" where
  "sample_files =
     [(''skills/pptx/SKILL.md'', pptx_skill_md),
      (''skills/pptx/ooxml.md'', ''OOXML reference''),
      (''skills/broken/SKILL.md'', ''---'' @ nl @ ''name: ['' @ nl @ ''---'' @ nl),
      (''skills/open/SKILL.md'', ''---'' @ open_front_matter),
      (''drafts/broken/SKILL.md'', ''---'' @ nl @ ''name: ['' @ nl @ ''---'' @ nl),
      (''more/nodesc/SKILL.md'', ''---'' @ nodesc_front_matter @ ''---'' @ nl),
      (''more/listname/SKILL.md'', ''---'' @ listname_front_matter @ ''---'' @ nl)]"

text \<open>Two more files exist without being text: \<open>font.bin\<close> cannot be decoded, and
  \<open>README.md\<close> is never read.\<close>

definition sample_other_files :: "string list" where
  "sample_other_files = [''skills/pptx/font.bin'', ''skills/README.md'']"

definition sample_dirs :: "string list" where
  "sample_dirs = [''skills'', ''skills/pptx'', ''skills/notes'', ''skills/broken'', ''skills/open'',
                  ''drafts'', ''drafts/broken'', ''more'', ''more/nodesc'', ''more/listname'',
                  ''locked'']"

definition sample_exists :: "string \<Rightarrow> fs_event list \<Rightarrow> bool" where
  "sample_exists p w =
     (Removed p \<notin> set w
      \<and> (p \<in> set sample_dirs \<or> p \<in> set (map fst sample_files) \<or> p \<in> set sample_other_files))"

definition sample_iterdir :: "string \<Rightarrow> fs_event list \<Rightarrow> exn + string list" where
  "sample_iterdir p w =
     (if \<not> sample_exists p w
      then Inl (FileNotFoundError (''[Errno 2] No such file or directory: '' @ quoted p))
      else if p \<notin> set sample_dirs
      then Inl (NotADirectoryError (''[Errno 20] Not a directory: '' @ quoted p))
      else if p = ''locked''
      then Inl (PermissionError (''[Errno 13] Permission denied: '' @ quoted p))
      else if p = ''skills''
      then Inr [''skills/pptx'', ''skills/notes'', ''skills/broken'', ''skills/open'',
                ''skills/README.md'']
      else if p = ''drafts'' then Inr [''drafts/broken'']
      else if p = ''more'' then Inr [''more/nodesc'', ''more/listname'']
      else Inr [])"

definition sample_read_text :: "string \<Rightarrow> fs_event list \<Rightarrow> (exn + string) \<times> fs_event list" where
  "sample_read_text p w =
     (if \<not> sample_exists p w
      then (Inl (FileNotFoundError (''[Errno 2] No such file or directory: '' @ quoted p)),
            w @ [Read p])
      else (case map_of sample_files p of
              Some content \<Rightarrow> (Inr content, w @ [Read p])
            | None \<Rightarrow> (Inl (Raised ''cannot read''), w @ [Read p])))"

definition sample_yaml :: "string \<Rightarrow> exn + pyval" where
  "sample_yaml s =
     (if s = pptx_front_matter
      then Inr (PDict [(''name'', PStr ''pptx''),
                       (''description'', PStr ''create PowerPoint files'')])
      else if s = open_front_matter
      then Inr (PDict [(''name'', PStr ''open''), (''description'', PStr ''never closed'')])
      else if s = nodesc_front_matter
      then Inr (PDict [(''name'', PStr ''nodesc''), (''description'', PNone)])
      else if s = listname_front_matter
      then Inr (PDict [(''name'', PList [PStr ''a''])])
      else if s = [] then Inr PNone
      else Inl (Raised ''while parsing a flow node''))"

definition use_pptx_args :: string where
  "use_pptx_args = ''{'' @ dq @ ''skill_name'' @ dq @ '': '' @ dq @ ''pptx'' @ dq @ '', ''
                   @ dq @ ''reason'' @ dq @ '': '' @ dq @ ''slides'' @ dq @ ''}''"

text \<open>An integer literal of 4301 digits, one more than the interpreter converts.\<close>

definition huge_integer :: string where
  "huge_integer = replicate 4301 (CHR ''1'')"

text \<open>The message of the \<open>ValueError\<close> with which \<open>int\<close> refuses it.\<close>

definition digit_limit_message :: string where
  "digit_limit_message =
     ''Exceeds the limit (4300 digits) for integer string conversion: ''
     @ ''value has 4301 digits; use sys.set_int_max_str_digits() to increase the limit''"

definition sample_json :: "bool \<Rightarrow> string \<Rightarrow> exn + pyval" where
  "sample_json strict s =
     (if s = ''[]'' then Inr (PList [])
      else if s = ''{}'' then Inr (PDict [])
      else if s = use_pptx_args
      then Inr (PDict [(''skill_name'', PStr ''pptx''), (''reason'', PStr ''slides'')])
      else if s = huge_integer
      then Inl (ValueError digit_limit_message)
      else Inl (JSONDecodeError ''Expecting value: line 1 column 1 (char 0)''))"

text \<open>Every registered handler has required parameters, so calling it with the empty
  mapping raises \<open>TypeError\<close> with this message; the sample handlers answer \<open>done\<close> to
  anything else.\<close>

definition missing_arguments :: "string \<Rightarrow> string" where
  "missing_arguments name =
     ''BaseToolExecutor._'' @ name @ ''() missing ''
     @ (if name = ''write_file''
        then ''2 required positional arguments: '' @ [CHR 0x27] @ ''path'' @ [CHR 0x27]
             @ '' and '' @ [CHR 0x27] @ ''content'' @ [CHR 0x27]
        else ''1 required positional argument: '' @ [CHR 0x27]
             @ (if name = ''execute_bash'' then ''command'' else ''path'') @ [CHR 0x27])"

definition sample_repr :: "pyval \<Rightarrow> string" where
  "sample_repr v =
     (case v of
        PNone \<Rightarrow> ''None''
      | PBool b \<Rightarrow> (if b then ''True'' else ''False'')
      | PFloat s \<Rightarrow> s
      | PObject ty s \<Rightarrow> s
      | _ \<Rightarrow> ''?'')"

definition sample_env :: "fs_event list env" where
  "sample_env =
     \<lparr>json_loads = sample_json,
      yaml_safe_load = sample_yaml,
      py_repr = sample_repr,
      fs_exists = sample_exists,
      fs_is_dir = (\<lambda>p w. p \<in> set sample_dirs),
      fs_iterdir = sample_iterdir,
      fs_read_text = sample_read_text,
      fs_join = (\<lambda>p q. p @ ''/'' @ q),
      fs_name = (\<lambda>p. rev (takeWhile (\<lambda>c. c \<noteq> CHR ''/'') (rev p))),
      run_handler = (\<lambda>name args w. if args = PDict []
                                    then (Inl (TypeError (missing_arguments name)), w)
                                    else (Inr ''done'', w))\<rparr>"

definition pptx_meta :: skill_meta where
  "pptx_meta = \<lparr>sm_name = PStr ''pptx'', sm_description = PStr ''create PowerPoint files'',
                 sm_path = ''skills/pptx'', sm_license = PStr []\<rparr>"

definition open_meta :: skill_meta where
  "open_meta = \<lparr>sm_name = PStr ''open'', sm_description = PStr ''never closed'',
                 sm_path = ''skills/open'', sm_license = PStr []\<rparr>"

definition nodesc_meta :: skill_meta where
  "nodesc_meta = \<lparr>sm_name = PStr ''nodesc'', sm_description = PNone,
                   sm_path = ''more/nodesc'', sm_license = PStr []\<rparr>"

text \<open>The catalog that discovery builds over \<open>skills\<close>, and the same after the body of
  \<open>pptx\<close>, or its resource \<open>ooxml.md\<close>, has been loaded.\<close>

definition sample_loader :: loader where
  "sample_loader =
     \<lparr>skills_directory = ''skills'',
      skill_metadata = [(PStr ''pptx'', pptx_meta), (PStr ''open'', open_meta)],
      skill_content = [], skill_resources = []\<rparr>"

definition sample_loader_body :: loader where
  "sample_loader_body = sample_loader\<lparr>skill_content := [(PStr ''pptx'', pptx_skill_md)]\<rparr>"

definition sample_loader_resource :: loader where
  "sample_loader_resource =
     sample_loader\<lparr>skill_resources := [(PStr ''pptx'', [(''ooxml.md'', ''OOXML reference'')])]\<rparr>"

definition sample_agent :: "fs_event list gateway \<Rightarrow> int \<Rightarrow> fs_event list agent" where
  "sample_agent gw n =
     \<lparr>system_prompt = ''You are a helpful AI assistant with access to skills.'',
      max_rounds = n, skill_loader = Some sample_loader, activated_skills = [],
      llm_client = Some gw\<rparr>"

text \<open>Sample backends. The first asks for the skill \<open>pptx\<close> when the conversation ends
  with the user's message and answers in plain text otherwise; the second always asks for a
  skill with the JSON text \<open>[]\<close> as arguments; the third always sends three requests, the
  second of them such a one; the fourth asks for a tool that does not exist, then answers;
  the fifth always asks for a directory listing; the sixth asks in one reply for a tool that
  does not exist and for a command without its arguments, then answers.\<close>

definition gw_activate_then_answer :: "fs_event list gateway" where
  "gw_activate_then_answer messages tools w =
     (case rev messages of
        UserMsg u # earlier \<Rightarrow>
          (Inr [AssistantMsg None
                 (Some [\<lparr>tc_id = ''call_1'', tc_name = ''use_skill'',
                          tc_arguments = PStr use_pptx_args\<rparr>])], w)
      | _ \<Rightarrow> (Inr [AssistantMsg (Some ''Done.'') None], w))"

definition gw_bad_use_skill :: "fs_event list gateway" where
  "gw_bad_use_skill messages tools w =
     (Inr [AssistantMsg None
            (Some [\<lparr>tc_id = ''call_1'', tc_name = ''use_skill'', tc_arguments = PStr ''[]''\<rparr>])],
      w)"

definition gw_three_calls :: "fs_event list gateway" where
  "gw_three_calls messages tools w =
     (Inr [AssistantMsg None
            (Some [\<lparr>tc_id = ''call_A'', tc_name = ''read_file'', tc_arguments = PStr ''{}''\<rparr>,
                   \<lparr>tc_id = ''call_B'', tc_name = ''use_skill'', tc_arguments = PStr ''[]''\<rparr>,
                   \<lparr>tc_id = ''call_C'', tc_name = ''list_files'', tc_arguments = PStr ''{}''\<rparr>])],
      w)"

definition gw_unknown_then_answer :: "fs_event list gateway" where
  "gw_unknown_then_answer messages tools w =
     (case rev messages of
        UserMsg u # earlier \<Rightarrow>
          (Inr [AssistantMsg None
                 (Some [\<lparr>tc_id = ''call_1'', tc_name = ''foo'', tc_arguments = PStr ''{}''\<rparr>])], w)
      | _ \<Rightarrow> (Inr [AssistantMsg (Some ''Done.'') None], w))"

definition gw_always_list_files :: "fs_event list gateway" where
  "gw_always_list_files messages tools w =
     (Inr [AssistantMsg None
            (Some [\<lparr>tc_id = ''call_1'', tc_name = ''list_files'', tc_arguments = PStr ''{}''\<rparr>])],
      w)"

definition two_requests :: "tool_call list" where
  "two_requests =
     [\<lparr>tc_id = ''call_1'', tc_name = ''foo'', tc_arguments = PStr ''{}''\<rparr>,
      \<lparr>tc_id = ''call_2'', tc_name = ''execute_bash'', tc_arguments = PStr ''{}''\<rparr>]"

definition gw_two_errors_then_answer :: "fs_event list gateway" where
  "gw_two_errors_then_answer messages tools w =
     (case rev messages of
        UserMsg u # earlier \<Rightarrow> (Inr [AssistantMsg None (Some two_requests)], w)
      | _ \<Rightarrow> (Inr [AssistantMsg (Some ''Done.'') None], w))"

text \<open>Two more replies that begin with the request for the unknown tool: the second
  request is for a skill with the JSON text \<open>[]\<close> as arguments, or for a file whose
  arguments are the integer of 4301 digits.\<close>

definition gw_unknown_then_bad_skill :: "fs_event list gateway" where
  "gw_unknown_then_bad_skill messages tools w =
     (Inr [AssistantMsg None
            (Some [\<lparr>tc_id = ''call_1'', tc_name = ''foo'', tc_arguments = PStr ''{}''\<rparr>,
                   \<lparr>tc_id = ''call_2'', tc_name = ''use_skill'', tc_arguments = PStr ''[]''\<rparr>])],
      w)"

definition gw_unknown_then_huge_integer :: "fs_event list gateway" where
  "gw_unknown_then_huge_integer messages tools w =
     (Inr [AssistantMsg None
            (Some [\<lparr>tc_id = ''call_1'', tc_name = ''foo'', tc_arguments = PStr ''{}''\<rparr>,
                   \<lparr>tc_id = ''call_2'', tc_name = ''read_file'',
                      tc_arguments = PStr huge_integer\<rparr>])],
      w)"

definition failing_backend :: "fs_event list backend" where
  "failing_backend messages tools w = (Inl (Raised ''Connection error.''), w)"

text \<open>The state in which \<open>chat\<close> enters its loop for the sample agent and the user
  message \<open>hi\<close>, and a fresh catalog as the constructor leaves it.\<close>

definition sample_state :: "fs_event list gateway \<Rightarrow> int \<Rightarrow> fs_event list chat_state" where
  "sample_state gw n =
     \<lparr>st_agent = sample_agent gw n,
      full_messages = [SystemMsg (system_content sample_env (sample_agent gw n)), UserMsg ''hi''],
      st_world = [], gateway_calls = []\<rparr>"

definition fresh :: "string \<Rightarrow> loader" where
  "fresh d = \<lparr>skills_directory = d, skill_metadata = [], skill_content = [],
              skill_resources = []\<rparr>"

section \<open>Properties of tool-argument parsing\<close>

lemma sample_env_simps:
  "json_loads sample_env = sample_json"
  "yaml_safe_load sample_env = sample_yaml"
  "py_repr sample_env = sample_repr"
  "fs_exists sample_env = sample_exists"
  "fs_is_dir sample_env = (\<lambda>p w. p \<in> set sample_dirs)"
  "fs_iterdir sample_env = sample_iterdir"
  "fs_read_text sample_env = sample_read_text"
  "fs_join sample_env = (\<lambda>p q. p @ ''/'' @ q)"
  "fs_name sample_env = (\<lambda>p. rev (takeWhile (\<lambda>c. c \<noteq> CHR ''/'') (rev p)))"
  "run_handler sample_env = (\<lambda>name args w. if args = PDict []
                                    then (Inl (TypeError (missing_arguments name)), w)
                                    else (Inr ''done'', w))"
  by (simp_all add: sample_env_def)

lemma dropWhile_rev_dropWhile_Nil:
  "dropWhile P (rev (dropWhile P s)) = [] \<longleftrightarrow> (\<forall>c \<in> set s. P c)"
proof
  assume a: "dropWhile P (rev (dropWhile P s)) = []"
  show "\<forall>c \<in> set s. P c"
  proof (cases "dropWhile P s")
    case Nil
    then show ?thesis by (simp only: dropWhile_eq_Nil_conv)
  next
    case (Cons x xs)
    then have "\<not> P x" using hd_dropWhile [of P s] by simp
    moreover have "\<forall>y \<in> set (rev (dropWhile P s)). P y"
      using a by (simp only: dropWhile_eq_Nil_conv)
    ultimately show ?thesis using Cons by simp
  qed
next
  assume "\<forall>c \<in> set s. P c"
  then have "\<forall>y \<in> set (rev (dropWhile P s)). P y"
    by (auto dest: set_dropWhileD)
  then show "dropWhile P (rev (dropWhile P s)) = []"
    by (simp only: dropWhile_eq_Nil_conv)
qed

lemma strip_empty_iff: "strip s = [] \<longleftrightarrow> (\<forall>c \<in> set s. is_space c)"
  unfolding strip_def rev_is_Nil_conv by (rule dropWhile_rev_dropWhile_Nil)

lemma parse_tool_args_blank:
  "strip s = [] \<Longrightarrow> parse_tool_args env (PStr s) fn = Inr (PDict [], None)"
  by (simp add: parse_tool_args_def)

lemma parse_tool_args_other:
  "a \<noteq> PNone \<Longrightarrow> \<not> is_dict a \<Longrightarrow> \<not> is_str a \<Longrightarrow>
   parse_tool_args env a fn =
     Inr (PNone, Some (''Error: Tool '' @ [CHR 0x27] @ fn @ [CHR 0x27]
                   @ '' arguments must be a JSON string, got '' @ type_name a @ ''.''))"
  by (cases a) (simp_all add: parse_tool_args_def)

lemma parse_tool_args_strict:
  "strip s \<noteq> [] \<Longrightarrow> json_loads env True s = Inr v \<Longrightarrow>
   parse_tool_args env (PStr s) fn = Inr (v, None)"
  by (simp add: parse_tool_args_def)

lemma parse_tool_args_lenient:
  "strip s \<noteq> [] \<Longrightarrow> json_loads env True s = Inl (JSONDecodeError e0) \<Longrightarrow>
   json_loads env False s = Inr v \<Longrightarrow>
   parse_tool_args env (PStr s) fn = Inr (v, None)"
  by (simp add: parse_tool_args_def)

lemma parse_tool_args_invalid:
  "strip s \<noteq> [] \<Longrightarrow> json_loads env True s = Inl (JSONDecodeError e0) \<Longrightarrow>
   json_loads env False s = Inl (JSONDecodeError e) \<Longrightarrow>
   parse_tool_args env (PStr s) fn =
     Inr (PNone, Some (''Error: Invalid JSON arguments for tool '' @ [CHR 0x27] @ fn @ [CHR 0x27]
                   @ '': '' @ e @ ''. Raw: ''
                   @ (if length (strip s) > 200
                      then take 200 (strip s) @ ''...(truncated)'' else strip s)))"
  by (simp add: parse_tool_args_def Let_def)

text \<open>The cases in which \<open>_parse_tool_args\<close> returns: an absent payload and a string of
  whitespace only give the empty mapping and no error; a mapping is returned as it is; a
  payload that is neither absent, a mapping nor a string gives an error text with the
  tool's name and the payload's type; any other string is given to the JSON parser,
  strictly and, after a \<open>JSONDecodeError\<close>, once more leniently, and when both attempts
  end in a \<open>JSONDecodeError\<close> the error text holds the tool's name, the second failure's
  detail and the stripped payload, cut to its first 200 characters (followed by a
  truncation mark) when longer.\<close>

lemma parse_tool_args_cases:
  "parse_tool_args env PNone fn = Inr (PDict [], None)
   \<and> ((\<forall>c \<in> set s0. is_space c) \<longrightarrow> parse_tool_args env (PStr s0) fn = Inr (PDict [], None))
   \<and> parse_tool_args env (PDict kvs) fn = Inr (PDict kvs, None)
   \<and> (a \<noteq> PNone \<and> \<not> is_dict a \<and> \<not> is_str a \<longrightarrow>
        parse_tool_args env a fn =
          Inr (PNone, Some (''Error: Tool '' @ [CHR 0x27] @ fn @ [CHR 0x27]
                        @ '' arguments must be a JSON string, got '' @ type_name a @ ''.'')))
   \<and> (strip s1 \<noteq> [] \<and> json_loads env True s1 = Inr v1 \<longrightarrow>
        parse_tool_args env (PStr s1) fn = Inr (v1, None))
   \<and> (strip s2 \<noteq> [] \<and> json_loads env True s2 = Inl (JSONDecodeError e2)
        \<and> json_loads env False s2 = Inr v2 \<longrightarrow>
        parse_tool_args env (PStr s2) fn = Inr (v2, None))
   \<and> (strip s3 \<noteq> [] \<and> json_loads env True s3 = Inl (JSONDecodeError e0)
        \<and> json_loads env False s3 = Inl (JSONDecodeError e) \<longrightarrow>
        (\<exists>echo. parse_tool_args env (PStr s3) fn =
           Inr (PNone, Some (''Error: Invalid JSON arguments for tool '' @ [CHR 0x27] @ fn
                         @ [CHR 0x27] @ '': '' @ e @ ''. Raw: '' @ echo))
         \<and> (if length (strip s3) > 200
             then echo = take 200 (strip s3) @ ''...(truncated)''
             else echo = strip s3)
         \<and> length (take 200 (strip s3)) \<le> 200))"
proof -
  have blank: "(\<forall>c \<in> set s0. is_space c) \<longrightarrow>
      parse_tool_args env (PStr s0) fn = Inr (PDict [], None)"
    using parse_tool_args_blank [of s0 env fn] by (simp add: strip_empty_iff)
  have invalid: "strip s3 \<noteq> [] \<and> json_loads env True s3 = Inl (JSONDecodeError e0)
        \<and> json_loads env False s3 = Inl (JSONDecodeError e) \<longrightarrow>
        (\<exists>echo. parse_tool_args env (PStr s3) fn =
           Inr (PNone, Some (''Error: Invalid JSON arguments for tool '' @ [CHR 0x27] @ fn
                         @ [CHR 0x27] @ '': '' @ e @ ''. Raw: '' @ echo))
         \<and> (if length (strip s3) > 200
             then echo = take 200 (strip s3) @ ''...(truncated)''
             else echo = strip s3)
         \<and> length (take 200 (strip s3)) \<le> 200)"
    using parse_tool_args_invalid [of s3 env e0 e fn] by (cases "length (strip s3) > 200") auto
  show ?thesis
    using blank invalid parse_tool_args_other [of a env fn]
      parse_tool_args_strict [of s1 env v1 fn] parse_tool_args_lenient [of s2 env e2 v2 fn]
    by (simp add: parse_tool_args_def)
qed

text \<open>When \<open>_parse_tool_args\<close> raises: exactly when the payload is a string that is not
  blank and one of the two calls of the JSON parser that are made ends in an exception
  other than \<open>JSONDecodeError\<close>; that exception leaves the function.\<close>

lemma parse_tool_args_raises_iff:
  "parse_tool_args env a fn = Inl e \<longleftrightarrow>
     (\<exists>s. a = PStr s \<and> strip s \<noteq> [] \<and> (\<forall>m. e \<noteq> JSONDecodeError m)
          \<and> (json_loads env True s = Inl e
              \<or> (\<exists>e0. json_loads env True s = Inl (JSONDecodeError e0))
                 \<and> json_loads env False s = Inl e))"
  by (cases a) (auto simp: parse_tool_args_def Let_def split: sum.splits exn.splits)

lemma parse_tool_args_samples:
  "parse_tool_args sample_env PNone ''t'' = Inr (PDict [], None)
   \<and> parse_tool_args sample_env (PStr ''  '') ''t'' = Inr (PDict [], None)
   \<and> parse_tool_args sample_env (PList []) ''t'' =
        Inr (PNone, Some (''Error: Tool '' @ [CHR 0x27] @ ''t'' @ [CHR 0x27]
                      @ '' arguments must be a JSON string, got list.''))
   \<and> parse_tool_args sample_env (PStr ''{}'') ''t'' = Inr (PDict [], None)
   \<and> parse_tool_args sample_env (PStr ''not json'') ''t'' =
        Inr (PNone, Some (''Error: Invalid JSON arguments for tool '' @ [CHR 0x27] @ ''t''
                      @ [CHR 0x27]
                      @ '': Expecting value: line 1 column 1 (char 0). Raw: not json''))"
  by code_simp

text \<open>
  Claim C3, evaluated. The payload is a string of 4301 digits. It is not blank, and it is
  JSON: an integer. The JSON parser converts the digits with \<open>int\<close>, which refuses more
  than 4300 of them with a plain \<open>ValueError\<close>. That is no \<open>JSONDecodeError\<close>, so neither
  \<open>except\<close> clause of \<open>_parse_tool_args\<close> catches it, the lenient attempt is not made, and
  the exception leaves the function instead of an error string being returned.
\<close>

theorem huge_integer_arguments_raise:
  "length huge_integer = 4301
   \<and> strip huge_integer = huge_integer
   \<and> json_loads sample_env True huge_integer
       = Inl (ValueError digit_limit_message)
   \<and> parse_tool_args sample_env (PStr huge_integer) ''read_file''
       = Inl (ValueError digit_limit_message)"
  by code_simp

section \<open>Properties of the catalog's caches\<close>

text \<open>
  Claim C8. A skill name is a string, as the signatures of \<open>activate_skill\<close> and
  \<open>load_resource\<close> declare. For a name that is no key of the discovery mapping, both
  functions return \<open>None\<close>, not an exception, and the catalog (its two caches included)
  and the world are left as they were.
\<close>

theorem unknown_skill_absent:
  "map_of (skill_metadata ld) (PStr skill_name) = None \<Longrightarrow>
     SkillLoader_activate_skill env ld (PStr skill_name) w = (Inr None, ld, w)
     \<and> load_resource env ld (PStr skill_name) resource_path w = (Inr None, ld, w)"
  by (simp add: SkillLoader_activate_skill_def load_resource_def)

theorem unknown_skill_absent_witness:
  "map_of (skill_metadata sample_loader) (PStr ''docx'') = None
   \<and> SkillLoader_activate_skill sample_env sample_loader (PStr ''docx'') []
       = (Inr None, sample_loader, [])
   \<and> load_resource sample_env sample_loader (PStr ''docx'') ''ooxml.md'' []
       = (Inr None, sample_loader, [])"
  using unknown_skill_absent [of sample_loader "''docx''" sample_env "[]" "''ooxml.md''"]
  by (simp add: sample_loader_def pptx_meta_def open_meta_def)

text \<open>The second call after a success finds the cache: its result does not depend on
  what reading a file would do.\<close>

lemma activate_twice:
  assumes "SkillLoader_activate_skill env ld k w = (Inr (Some body), ld1, w1)"
  shows "SkillLoader_activate_skill (env\<lparr>fs_read_text := f\<rparr>) ld1 k w2
           = (Inr (Some body), ld1, w2)"
  using assms
  by (auto simp: SkillLoader_activate_skill_def AList.update_conv'
           split: option.splits sum.splits prod.splits if_splits)

lemma load_resource_metadata:
  "load_resource env ld k p w = (r, ld1, w1) \<Longrightarrow> skill_metadata ld1 = skill_metadata ld"
  by (auto simp: load_resource_def Let_def
           split: option.splits sum.splits prod.splits if_splits)

lemma load_resource_twice:
  assumes "load_resource env ld k p w = (Inr (Some content), ld1, w1)"
    and "map_of (skill_metadata ld) k = Some metadata"
    and "fs_exists env (fs_join env (sm_path metadata) p) w2"
  shows "load_resource (env\<lparr>fs_read_text := f\<rparr>) ld1 k p w2 = (Inr (Some content), ld1, w2)"
  using assms
  by (auto simp: load_resource_def AList.update_conv' dict_get_def Let_def
           split: option.splits sum.splits prod.splits if_splits)

lemma load_resource_gone:
  assumes "load_resource env ld k p w = (Inr r, ld1, w1)"
    and "map_of (skill_metadata ld) k = Some metadata"
    and "\<not> fs_exists env (fs_join env (sm_path metadata) p) w2"
  shows "load_resource env ld1 k p w2 = (Inr None, ld1, w2)"
proof -
  have "hashable k"
    using assms(1) by (auto simp: load_resource_def split: if_splits)
  moreover have "map_of (skill_metadata ld1) k = Some metadata"
    using load_resource_metadata [OF assms(1)] assms(2) by simp
  ultimately show ?thesis
    using assms(3) by (simp add: load_resource_def)
qed

lemma load_resource_frame:
  "load_resource env (ld\<lparr>skill_content := sc\<rparr>) k p w =
     (case load_resource env ld k p w of
        (r, ld', w') \<Rightarrow> (r, ld'\<lparr>skill_content := sc\<rparr>, w'))"
  by (auto simp: load_resource_def Let_def split: option.splits sum.splits prod.splits)

lemma activate_frame:
  "SkillLoader_activate_skill env (ld\<lparr>skill_resources := sr\<rparr>) k w =
     (case SkillLoader_activate_skill env ld k w of
        (r, ld', w') \<Rightarrow> (r, ld'\<lparr>skill_resources := sr\<rparr>, w'))"
  by (auto simp: SkillLoader_activate_skill_def Let_def split: option.splits sum.splits prod.splits)

lemma load_resource_fresh:
  assumes "map_of (skill_metadata ld) k = Some metadata"
    and "hashable k"
    and "fs_exists env (fs_join env (sm_path metadata) p) w"
    and "map_of (dict_get (skill_resources ld) k []) p = None"
    and "fs_read_text env (fs_join env (sm_path metadata) p) w = (Inr data, w')"
  shows "\<exists>ld'. load_resource env ld k p w = (Inr (Some data), ld', w')
               \<and> skill_content ld' = skill_content ld"
  using assms
  by (auto simp: load_resource_def AList.update_conv' dict_get_def Let_def
           split: option.splits)

lemma load_resource_failed_read:
  assumes "map_of (skill_metadata ld) k = Some metadata"
    and "hashable k"
    and "fs_exists env (fs_join env (sm_path metadata) p) w"
    and "map_of (dict_get (skill_resources ld) k []) p = None"
    and "fs_read_text env (fs_join env (sm_path metadata) p) w = (Inl e, w')"
  shows "load_resource env ld k p w =
           (Inr None,
            (if map_of (skill_resources ld) k = None
             then ld\<lparr>skill_resources := AList.update k [] (skill_resources ld)\<rparr> else ld),
            w')"
  using assms
  by (auto simp: load_resource_def AList.update_conv' dict_get_def Let_def
           split: option.splits)

lemma activate_failed_read:
  assumes "map_of (skill_metadata ld) k = Some metadata"
    and "hashable k"
    and "map_of (skill_content ld) k = None"
    and "fs_read_text env (fs_join env (sm_path metadata) ''SKILL.md'') w = (Inl e, w')"
  shows "SkillLoader_activate_skill env ld k w = (Inr None, ld, w')"
  using assms by (simp add: SkillLoader_activate_skill_def)

text \<open>
  Claim C6, as amended. For a discovered skill (its name a string):
  \<^item> once \<open>activate_skill\<close> has returned a body, a second call returns the same body and
    leaves catalog and world untouched, whatever the world is by then and whatever
    reading a file would do: the file is not read again;
  \<^item> when the body is not cached and reading \<open>SKILL.md\<close> fails, \<open>activate_skill\<close> returns
    \<open>None\<close> and leaves the catalog as it was, so nothing is cached;
  \<^item> once \<open>load_resource\<close> has returned a content, a second call for the same skill and
    path returns the same content and leaves catalog and world untouched, whatever
    reading would do, if the file still exists; if it does not, the second call returns
    \<open>None\<close>, because the code tests existence before it looks into its cache;
  \<^item> the two caches are independent: a resource that exists and can be read is loaded for
    a skill whose body was never activated, \<open>load_resource\<close> neither reads nor changes
    \<open>skill_content\<close>, and \<open>activate_skill\<close> neither reads nor changes \<open>skill_resources\<close>;
  \<^item> when the read of a resource fails, \<open>load_resource\<close> returns \<open>None\<close>, the catalog
    changes at most by an empty cache for the skill, and the resource is still not cached.
\<close>

theorem skill_caches:
  assumes "map_of (skill_metadata ld) (PStr skill_name) = Some metadata"
  shows "(SkillLoader_activate_skill env ld (PStr skill_name) w = (Inr (Some body), ld1, w1) \<longrightarrow>
            SkillLoader_activate_skill (env\<lparr>fs_read_text := f\<rparr>) ld1 (PStr skill_name) w2
              = (Inr (Some body), ld1, w2))
       \<and> (map_of (skill_content ld) (PStr skill_name) = None
            \<and> fs_read_text env (fs_join env (sm_path metadata) ''SKILL.md'') w = (Inl e7, w7) \<longrightarrow>
            SkillLoader_activate_skill env ld (PStr skill_name) w = (Inr None, ld, w7))
       \<and> (load_resource env ld (PStr skill_name) resource_path w = (Inr (Some content), ld3, w3)
            \<and> fs_exists env (fs_join env (sm_path metadata) resource_path) w4 \<longrightarrow>
            load_resource (env\<lparr>fs_read_text := f\<rparr>) ld3 (PStr skill_name) resource_path w4
              = (Inr (Some content), ld3, w4))
       \<and> (load_resource env ld (PStr skill_name) resource_path w = (Inr (Some content), ld3, w3)
            \<and> \<not> fs_exists env (fs_join env (sm_path metadata) resource_path) w8 \<longrightarrow>
            load_resource env ld3 (PStr skill_name) resource_path w8 = (Inr None, ld3, w8))
       \<and> (map_of (skill_content ld) (PStr skill_name) = None
            \<and> fs_exists env (fs_join env (sm_path metadata) resource_path) w
            \<and> map_of (dict_get (skill_resources ld) (PStr skill_name) []) resource_path = None
            \<and> fs_read_text env (fs_join env (sm_path metadata) resource_path) w = (Inr data, w5) \<longrightarrow>
            (\<exists>ld5. load_resource env ld (PStr skill_name) resource_path w
                      = (Inr (Some data), ld5, w5)
                    \<and> skill_content ld5 = skill_content ld))
       \<and> (fs_exists env (fs_join env (sm_path metadata) other_path) w
            \<and> map_of (dict_get (skill_resources ld) (PStr skill_name) []) other_path = None
            \<and> fs_read_text env (fs_join env (sm_path metadata) other_path) w = (Inl e, w6) \<longrightarrow>
            (\<exists>ld6. load_resource env ld (PStr skill_name) other_path w = (Inr None, ld6, w6)
                    \<and> ld6 = (if map_of (skill_resources ld) (PStr skill_name) = None
                             then ld\<lparr>skill_resources :=
                                      AList.update (PStr skill_name) [] (skill_resources ld)\<rparr>
                             else ld)
                    \<and> map_of (dict_get (skill_resources ld6) (PStr skill_name) []) other_path
                        = None))
       \<and> load_resource env (ld\<lparr>skill_content := sc\<rparr>) (PStr skill_name) resource_path w =
            (case load_resource env ld (PStr skill_name) resource_path w of
               (r, ld', w') \<Rightarrow> (r, ld'\<lparr>skill_content := sc\<rparr>, w'))
       \<and> SkillLoader_activate_skill env (ld\<lparr>skill_resources := sr\<rparr>) (PStr skill_name) w =
            (case SkillLoader_activate_skill env ld (PStr skill_name) w of
               (r, ld', w') \<Rightarrow> (r, ld'\<lparr>skill_resources := sr\<rparr>, w'))"
proof (intro conjI impI)
  assume "SkillLoader_activate_skill env ld (PStr skill_name) w = (Inr (Some body), ld1, w1)"
  then show "SkillLoader_activate_skill (env\<lparr>fs_read_text := f\<rparr>) ld1 (PStr skill_name) w2
               = (Inr (Some body), ld1, w2)"
    by (rule activate_twice)
next
  assume "map_of (skill_content ld) (PStr skill_name) = None
            \<and> fs_read_text env (fs_join env (sm_path metadata) ''SKILL.md'') w = (Inl e7, w7)"
  then show "SkillLoader_activate_skill env ld (PStr skill_name) w = (Inr None, ld, w7)"
    using activate_failed_read [OF assms, of env w e7 w7] by simp
next
  assume "load_resource env ld (PStr skill_name) resource_path w = (Inr (Some content), ld3, w3)
            \<and> fs_exists env (fs_join env (sm_path metadata) resource_path) w4"
  then have "load_resource env ld (PStr skill_name) resource_path w = (Inr (Some content), ld3, w3)"
    and "fs_exists env (fs_join env (sm_path metadata) resource_path) w4" by simp_all
  then show "load_resource (env\<lparr>fs_read_text := f\<rparr>) ld3 (PStr skill_name) resource_path w4
               = (Inr (Some content), ld3, w4)"
    by (rule load_resource_twice [OF _ assms])
next
  assume "load_resource env ld (PStr skill_name) resource_path w = (Inr (Some content), ld3, w3)
            \<and> \<not> fs_exists env (fs_join env (sm_path metadata) resource_path) w8"
  then have "load_resource env ld (PStr skill_name) resource_path w = (Inr (Some content), ld3, w3)"
    and "\<not> fs_exists env (fs_join env (sm_path metadata) resource_path) w8" by simp_all
  then show "load_resource env ld3 (PStr skill_name) resource_path w8 = (Inr None, ld3, w8)"
    by (rule load_resource_gone [OF _ assms])
next
  assume "map_of (skill_content ld) (PStr skill_name) = None
            \<and> fs_exists env (fs_join env (sm_path metadata) resource_path) w
            \<and> map_of (dict_get (skill_resources ld) (PStr skill_name) []) resource_path = None
            \<and> fs_read_text env (fs_join env (sm_path metadata) resource_path) w = (Inr data, w5)"
  then have "fs_exists env (fs_join env (sm_path metadata) resource_path) w"
    and "map_of (dict_get (skill_resources ld) (PStr skill_name) []) resource_path = None"
    and "fs_read_text env (fs_join env (sm_path metadata) resource_path) w = (Inr data, w5)"
    by simp_all
  then show "\<exists>ld5. load_resource env ld (PStr skill_name) resource_path w
                      = (Inr (Some data), ld5, w5)
                    \<and> skill_content ld5 = skill_content ld"
    using load_resource_fresh [OF assms, of env resource_path w data w5] by simp
next
  assume "fs_exists env (fs_join env (sm_path metadata) other_path) w
            \<and> map_of (dict_get (skill_resources ld) (PStr skill_name) []) other_path = None
            \<and> fs_read_text env (fs_join env (sm_path metadata) other_path) w = (Inl e, w6)"
  then have h: "fs_exists env (fs_join env (sm_path metadata) other_path) w"
    "map_of (dict_get (skill_resources ld) (PStr skill_name) []) other_path = None"
    "fs_read_text env (fs_join env (sm_path metadata) other_path) w = (Inl e, w6)"
    by simp_all
  define ld6 where "ld6 = (if map_of (skill_resources ld) (PStr skill_name) = None
                             then ld\<lparr>skill_resources :=
                                      AList.update (PStr skill_name) [] (skill_resources ld)\<rparr>
                             else ld)"
  have "load_resource env ld (PStr skill_name) other_path w = (Inr None, ld6, w6)"
    unfolding ld6_def using load_resource_failed_read [OF assms _ h] by simp
  moreover have "map_of (dict_get (skill_resources ld6) (PStr skill_name) []) other_path = None"
    using h(2) by (auto simp: ld6_def dict_get_def AList.update_conv' split: option.splits)
  ultimately show "\<exists>ld6. load_resource env ld (PStr skill_name) other_path w = (Inr None, ld6, w6)
                    \<and> ld6 = (if map_of (skill_resources ld) (PStr skill_name) = None
                             then ld\<lparr>skill_resources :=
                                      AList.update (PStr skill_name) [] (skill_resources ld)\<rparr>
                             else ld)
                    \<and> map_of (dict_get (skill_resources ld6) (PStr skill_name) []) other_path
                        = None"
    using ld6_def by blast
qed (rule load_resource_frame, rule activate_frame)

theorem skill_caches_witness:
  "map_of (skill_metadata sample_loader) (PStr ''pptx'') = Some pptx_meta
   \<and> SkillLoader_activate_skill sample_env sample_loader (PStr ''pptx'') []
       = (Inr (Some pptx_skill_md), sample_loader_body, [Read ''skills/pptx/SKILL.md''])
   \<and> SkillLoader_activate_skill
         (sample_env\<lparr>fs_read_text := \<lambda>p w. (Inl (Raised ''unplugged''), w @ [Read p])\<rparr>)
         sample_loader_body (PStr ''pptx'') [Read ''skills/pptx/SKILL.md'']
       = (Inr (Some pptx_skill_md), sample_loader_body, [Read ''skills/pptx/SKILL.md''])
   \<and> fs_read_text sample_env (fs_join sample_env (sm_path pptx_meta) ''SKILL.md'')
         [Removed ''skills/pptx/SKILL.md'']
       = (Inl (FileNotFoundError (''[Errno 2] No such file or directory: ''
                                   @ quoted ''skills/pptx/SKILL.md'')),
          [Removed ''skills/pptx/SKILL.md'', Read ''skills/pptx/SKILL.md''])
   \<and> SkillLoader_activate_skill sample_env sample_loader (PStr ''pptx'')
         [Removed ''skills/pptx/SKILL.md'']
       = (Inr None, sample_loader,
          [Removed ''skills/pptx/SKILL.md'', Read ''skills/pptx/SKILL.md''])
   \<and> load_resource sample_env sample_loader (PStr ''pptx'') ''ooxml.md'' []
       = (Inr (Some ''OOXML reference''), sample_loader_resource, [Read ''skills/pptx/ooxml.md''])
   \<and> fs_exists sample_env (fs_join sample_env (sm_path pptx_meta) ''ooxml.md'')
         [Read ''skills/pptx/ooxml.md'']
   \<and> load_resource
         (sample_env\<lparr>fs_read_text := \<lambda>p w. (Inl (Raised ''unplugged''), w @ [Read p])\<rparr>)
         sample_loader_resource (PStr ''pptx'') ''ooxml.md'' [Read ''skills/pptx/ooxml.md'']
       = (Inr (Some ''OOXML reference''), sample_loader_resource, [Read ''skills/pptx/ooxml.md''])
   \<and> \<not> fs_exists sample_env (fs_join sample_env (sm_path pptx_meta) ''ooxml.md'')
         [Read ''skills/pptx/ooxml.md'', Removed ''skills/pptx/ooxml.md'']
   \<and> load_resource sample_env sample_loader_resource (PStr ''pptx'') ''ooxml.md''
         [Read ''skills/pptx/ooxml.md'', Removed ''skills/pptx/ooxml.md'']
       = (Inr None, sample_loader_resource,
          [Read ''skills/pptx/ooxml.md'', Removed ''skills/pptx/ooxml.md''])
   \<and> map_of (skill_content sample_loader) (PStr ''pptx'') = None
   \<and> skill_content sample_loader_resource = skill_content sample_loader
   \<and> fs_read_text sample_env (fs_join sample_env (sm_path pptx_meta) ''font.bin'') []
       = (Inl (Raised ''cannot read''), [Read ''skills/pptx/font.bin''])
   \<and> load_resource sample_env sample_loader (PStr ''pptx'') ''font.bin'' []
       = (Inr None, sample_loader\<lparr>skill_resources := [(PStr ''pptx'', [])]\<rparr>,
          [Read ''skills/pptx/font.bin''])"
proof -
  define unplugged :: "string \<Rightarrow> fs_event list \<Rightarrow> (exn + string) \<times> fs_event list"
    where "unplugged = (\<lambda>p w. (Inl (Raised ''unplugged''), w @ [Read p]))"
  have known: "map_of (skill_metadata sample_loader) (PStr ''pptx'') = Some pptx_meta"
    by code_simp
  have first_body: "SkillLoader_activate_skill sample_env sample_loader (PStr ''pptx'') []
       = (Inr (Some pptx_skill_md), sample_loader_body, [Read ''skills/pptx/SKILL.md''])"
    by code_simp
  have first_resource: "load_resource sample_env sample_loader (PStr ''pptx'') ''ooxml.md'' []
       = (Inr (Some ''OOXML reference''), sample_loader_resource, [Read ''skills/pptx/ooxml.md''])"
    by code_simp
  have still_there: "fs_exists sample_env (fs_join sample_env (sm_path pptx_meta) ''ooxml.md'')
         [Read ''skills/pptx/ooxml.md'']"
    by code_simp
  have gone: "\<not> fs_exists sample_env (fs_join sample_env (sm_path pptx_meta) ''ooxml.md'')
         [Read ''skills/pptx/ooxml.md'', Removed ''skills/pptx/ooxml.md'']"
    by code_simp
  have fresh: "map_of (skill_content sample_loader) (PStr ''pptx'') = None"
    "skill_content sample_loader_resource = skill_content sample_loader"
    by code_simp+
  have body_gone: "fs_read_text sample_env (fs_join sample_env (sm_path pptx_meta) ''SKILL.md'')
         [Removed ''skills/pptx/SKILL.md'']
       = (Inl (FileNotFoundError (''[Errno 2] No such file or directory: ''
                                   @ quoted ''skills/pptx/SKILL.md'')),
          [Removed ''skills/pptx/SKILL.md'', Read ''skills/pptx/SKILL.md''])"
    by code_simp
  have unreadable: "fs_exists sample_env (fs_join sample_env (sm_path pptx_meta) ''font.bin'') []"
    "map_of (dict_get (skill_resources sample_loader) (PStr ''pptx'') []) ''font.bin'' = None"
    "fs_read_text sample_env (fs_join sample_env (sm_path pptx_meta) ''font.bin'') []
       = (Inl (Raised ''cannot read''), [Read ''skills/pptx/font.bin''])"
    by code_simp+
  note caches = skill_caches [OF known, where env = sample_env and f = unplugged
      and body = pptx_skill_md and ?ld1.0 = sample_loader_body
      and ?w1.0 = "[Read ''skills/pptx/SKILL.md'']" and ?w2.0 = "[Read ''skills/pptx/SKILL.md'']"
      and resource_path = "''ooxml.md''" and content = "''OOXML reference''"
      and ?ld3.0 = sample_loader_resource and ?w3.0 = "[Read ''skills/pptx/ooxml.md'']"
      and ?w4.0 = "[Read ''skills/pptx/ooxml.md'']"
      and ?w8.0 = "[Read ''skills/pptx/ooxml.md'', Removed ''skills/pptx/ooxml.md'']"]
  have second_body: "SkillLoader_activate_skill (sample_env\<lparr>fs_read_text := unplugged\<rparr>)
         sample_loader_body (PStr ''pptx'') [Read ''skills/pptx/SKILL.md'']
       = (Inr (Some pptx_skill_md), sample_loader_body, [Read ''skills/pptx/SKILL.md''])"
    using caches [where w = "[]"] first_body by blast
  have second_resource: "load_resource (sample_env\<lparr>fs_read_text := unplugged\<rparr>)
         sample_loader_resource (PStr ''pptx'') ''ooxml.md'' [Read ''skills/pptx/ooxml.md'']
       = (Inr (Some ''OOXML reference''), sample_loader_resource, [Read ''skills/pptx/ooxml.md''])"
    using caches [where w = "[]"] first_resource still_there by blast
  have vanished: "load_resource sample_env sample_loader_resource (PStr ''pptx'') ''ooxml.md''
         [Read ''skills/pptx/ooxml.md'', Removed ''skills/pptx/ooxml.md'']
       = (Inr None, sample_loader_resource,
          [Read ''skills/pptx/ooxml.md'', Removed ''skills/pptx/ooxml.md''])"
    using caches [where w = "[]"] first_resource gone by blast
  have body_failed: "SkillLoader_activate_skill sample_env sample_loader (PStr ''pptx'')
         [Removed ''skills/pptx/SKILL.md'']
       = (Inr None, sample_loader,
          [Removed ''skills/pptx/SKILL.md'', Read ''skills/pptx/SKILL.md''])"
    using caches [where w = "[Removed ''skills/pptx/SKILL.md'']"] fresh(1) body_gone by blast
  have "\<exists>ld6. load_resource sample_env sample_loader (PStr ''pptx'') ''font.bin'' []
                 = (Inr None, ld6, [Read ''skills/pptx/font.bin''])
               \<and> ld6 = (if map_of (skill_resources sample_loader) (PStr ''pptx'') = None
                        then sample_loader\<lparr>skill_resources :=
                               AList.update (PStr ''pptx'') [] (skill_resources sample_loader)\<rparr>
                        else sample_loader)
               \<and> map_of (dict_get (skill_resources ld6) (PStr ''pptx'') []) ''font.bin'' = None"
    using caches [where w = "[]" and other_path = "''font.bin''"] unreadable by blast
  moreover have "(if map_of (skill_resources sample_loader) (PStr ''pptx'') = None
                        then sample_loader\<lparr>skill_resources :=
                               AList.update (PStr ''pptx'') [] (skill_resources sample_loader)\<rparr>
                        else sample_loader)
                 = sample_loader\<lparr>skill_resources := [(PStr ''pptx'', [])]\<rparr>"
    by code_simp
  ultimately have not_cached: "load_resource sample_env sample_loader (PStr ''pptx'') ''font.bin'' []
       = (Inr None, sample_loader\<lparr>skill_resources := [(PStr ''pptx'', [])]\<rparr>,
          [Read ''skills/pptx/font.bin''])"
    by auto
  show ?thesis
    unfolding unplugged_def [symmetric]
    using known first_body second_body body_gone body_failed first_resource still_there
      second_resource gone vanished fresh unreadable(3) not_cached
    by (intro conjI)
qed

text \<open>
  Claim C6 as it was stated fails where a read fails and where the file goes away. The
  resource \<open>font.bin\<close> of \<open>pptx\<close> exists but cannot be read as text: both calls return
  \<open>None\<close>, nothing is cached, and the file is read by the first call and again by the
  second. The resource \<open>ooxml.md\<close> is loaded and cached; it is then removed, and the
  second call returns \<open>None\<close>, not the content of the first. And when \<open>SKILL.md\<close> of
  \<open>pptx\<close> has been removed after discovery, two activations both return \<open>None\<close> and
  both try to read the file.
\<close>

theorem failed_reads_are_repeated:
  "map_of (skill_metadata sample_loader) (PStr ''pptx'') = Some pptx_meta
   \<and> fs_exists sample_env ''skills/pptx/font.bin'' []
   \<and> load_resource sample_env sample_loader (PStr ''pptx'') ''font.bin'' []
       = (Inr None, sample_loader\<lparr>skill_resources := [(PStr ''pptx'', [])]\<rparr>,
          [Read ''skills/pptx/font.bin''])
   \<and> load_resource sample_env (sample_loader\<lparr>skill_resources := [(PStr ''pptx'', [])]\<rparr>)
         (PStr ''pptx'') ''font.bin'' [Read ''skills/pptx/font.bin'']
       = (Inr None, sample_loader\<lparr>skill_resources := [(PStr ''pptx'', [])]\<rparr>,
          [Read ''skills/pptx/font.bin'', Read ''skills/pptx/font.bin''])
   \<and> load_resource sample_env sample_loader (PStr ''pptx'') ''ooxml.md'' []
       = (Inr (Some ''OOXML reference''), sample_loader_resource, [Read ''skills/pptx/ooxml.md''])
   \<and> load_resource sample_env sample_loader_resource (PStr ''pptx'') ''ooxml.md''
         [Read ''skills/pptx/ooxml.md'', Removed ''skills/pptx/ooxml.md'']
       = (Inr None, sample_loader_resource,
          [Read ''skills/pptx/ooxml.md'', Removed ''skills/pptx/ooxml.md''])
   \<and> SkillLoader_activate_skill sample_env sample_loader (PStr ''pptx'')
         [Removed ''skills/pptx/SKILL.md'']
       = (Inr None, sample_loader,
          [Removed ''skills/pptx/SKILL.md'', Read ''skills/pptx/SKILL.md''])
   \<and> SkillLoader_activate_skill sample_env sample_loader (PStr ''pptx'')
         [Removed ''skills/pptx/SKILL.md'', Read ''skills/pptx/SKILL.md'']
       = (Inr None, sample_loader,
          [Removed ''skills/pptx/SKILL.md'', Read ''skills/pptx/SKILL.md'',
           Read ''skills/pptx/SKILL.md''])"
  by code_simp

section \<open>Properties of discovery\<close>

lemma find_sub_Some:
  "find_sub sep s = Some i \<Longrightarrow>
   startswith (drop i s) sep \<and> (\<forall>j<i. \<not> startswith (drop j s) sep)"
proof (induction s arbitrary: i)
  case Nil
  then show ?case by (simp add: startswith_def split: if_splits)
next
  case (Cons c cs)
  show ?case
  proof (cases "startswith (c # cs) sep")
    case True
    with Cons.prems show ?thesis by simp
  next
    case False
    with Cons.prems obtain i' where i': "find_sub sep cs = Some i'" "i = Suc i'"
      by auto
    from Cons.IH [OF i'(1)] have
      ih: "startswith (drop i' cs) sep" "\<forall>j<i'. \<not> startswith (drop j cs) sep" by simp_all
    have "\<not> startswith (drop j (c # cs)) sep" if "j < i" for j
    proof (cases j)
      case 0
      with False show ?thesis by simp
    next
      case (Suc j')
      with that i'(2) ih(2) show ?thesis by simp
    qed
    with ih(1) i'(2) show ?thesis by simp
  qed
qed

lemma find_sub_None:
  "find_sub sep s = None \<Longrightarrow> \<not> startswith (drop j s) sep"
proof (induction s arbitrary: j)
  case Nil
  then show ?case by (auto simp: startswith_def split: if_splits)
next
  case (Cons c cs)
  then show ?case by (cases j) (auto split: if_splits)
qed

lemma find_sub_absent:
  "(\<forall>j. \<not> startswith (drop j s) sep) \<Longrightarrow> find_sub sep s = None"
  using find_sub_Some [of sep s] by (cases "find_sub sep s") auto

lemma find_sub_least:
  assumes "startswith (drop i s) sep" and "\<forall>j<i. \<not> startswith (drop j s) sep"
  shows "find_sub sep s = Some i"
proof (cases "find_sub sep s")
  case None
  with find_sub_None [of sep s i] assms(1) show ?thesis by simp
next
  case (Some k)
  from find_sub_Some [OF Some] have k: "startswith (drop k s) sep"
    "\<forall>j<k. \<not> startswith (drop j s) sep" by simp_all
  have "k = i" using assms k by (meson linorder_neqE_nat)
  with Some show ?thesis by simp
qed

lemma split_front_matter:
  assumes "startswith content ''---''"
  shows "split_max 2 ''---'' content =
           (case find_sub ''---'' (drop 3 content) of
              None \<Rightarrow> [[], drop 3 content]
            | Some i \<Rightarrow> [[], take i (drop 3 content), drop (i + 3) (drop 3 content)])"
proof -
  from assms obtain c cs where c: "content = c # cs"
    by (cases content) (auto simp: startswith_def)
  have "find_sub ''---'' content = Some 0" using assms c by simp
  then show ?thesis
    by (simp add: eval_nat_numeral split: option.splits)
qed

lemma load_skill_metadata_front:
  assumes "fs_read_text env (fs_join env skill_folder ''SKILL.md'') w = (Inr content, w')"
    and "startswith content ''---''"
  shows "load_skill_metadata env skill_folder w =
           (parse_frontmatter env skill_folder
              (case find_sub ''---'' (drop 3 content) of
                 None \<Rightarrow> drop 3 content
               | Some i \<Rightarrow> take i (drop 3 content)), w')"
  using assms
  by (simp add: load_skill_metadata_def split_front_matter Let_def split: option.splits)

text \<open>The loop over the folders works them off one after the other.\<close>

lemma load_folders_append:
  "load_folders env (xs @ ys) acc = load_folders env ys (load_folders env xs acc)"
proof (induction xs arbitrary: acc)
  case Nil
  then show ?case by simp
next
  case (Cons x xs)
  obtain ld log w where acc: "acc = (ld, log, w)" by (cases acc)
  show ?case
    unfolding acc
    by (simp add: Cons.IH Let_def split: prod.splits sum.splits option.splits)
qed

text \<open>A folder whose \<open>_load_skill_metadata\<close> raises: one line is printed, the mapping
  stays as the folders before it made it, and the folders after it are worked off.\<close>

lemma load_folders_failure:
  assumes "load_folders env before (ld, log, w) = (ld1, log1, w1)"
    and "load_skill_metadata env bad w1 = (Inl e, w2)"
  shows "load_folders env (before @ bad # rest) (ld, log, w) =
           load_folders env rest (ld1, log1 @ [FailedToLoad (fs_name env bad) (exn_str e)], w2)"
  using assms by (simp add: load_folders_append)

text \<open>A folder whose file has no front matter is passed over without a line.\<close>

lemma load_folders_no_front_matter:
  assumes "load_folders env before (ld, log, w) = (ld1, log1, w1)"
    and "load_skill_metadata env plain w1 = (Inr None, w2)"
  shows "load_folders env (before @ plain # rest) (ld, log, w) =
           load_folders env rest (ld1, log1, w2)"
  using assms by (simp add: load_folders_append)

text \<open>A folder whose descriptor has a string as its name is registered under that name,
  whatever came before; when its description cannot be sliced, the failure is reported
  as well.\<close>

lemma load_folders_registers:
  assumes "load_folders env before (ld, log, w) = (ld1, log1, w1)"
    and "load_skill_metadata env good w1 = (Inr (Some metadata), w2)"
    and "sm_name metadata = PStr name"
  shows "load_folders env (before @ good # rest) (ld, log, w) =
           load_folders env rest
             (ld1\<lparr>skill_metadata := AList.update (PStr name) metadata (skill_metadata ld1)\<rparr>,
              log1 @ Discovered name
                # (case slice_error (sm_description metadata) of
                     None \<Rightarrow> []
                   | Some e \<Rightarrow> [FailedToLoad (fs_name env good) (exn_str e)]),
              w2)"
  using assms
  by (simp add: load_folders_append Let_def py_format_def split: option.splits)

lemma load_skill_metadata_yaml_error:
  assumes "fs_read_text env (fs_join env skill_folder ''SKILL.md'') w = (Inr content, w')"
    and "startswith content ''---''"
    and "yaml_safe_load env (split_max 2 ''---'' content ! 1) = Inl e"
  shows "load_skill_metadata env skill_folder w = (Inl e, w')"
proof -
  have "length (split_max 2 ''---'' content) \<ge> 2"
    using assms(2) by (simp add: split_front_matter split: option.splits)
  then show ?thesis
    using assms by (simp add: load_skill_metadata_def parse_frontmatter_def Let_def)
qed

text \<open>An entry without the marker file is no skill folder.\<close>

lemma unmarked_is_skipped:
  "skill_folders env dir w = Inr folders \<Longrightarrow>
   \<not> fs_exists env (fs_join env item ''SKILL.md'') w \<Longrightarrow> item \<notin> set folders"
  by (auto simp: skill_folders_def split: sum.splits)

text \<open>\<open>discover_skills\<close> raises exactly when listing the root raises, and then with the
  exception of the listing. A root that exists passes the constructor whether or not it
  can be listed.\<close>

lemma discover_skills_raises_iff:
  "fst (discover_skills env ld w) = Inl e \<longleftrightarrow> fs_iterdir env (skills_directory ld) w = Inl e"
  by (auto simp: discover_skills_def skill_folders_def split: sum.splits prod.splits)

lemma unlistable_root_passes_constructor:
  assumes "fs_exists env dir w" and "fs_iterdir env dir w = Inl e"
  shows "\<exists>ld. SkillLoader_init env dir w = Inr ld \<and> discover_skills env ld w = (Inl e, ld, [], w)"
  using assms by (simp add: SkillLoader_init_def discover_skills_def skill_folders_def)

text \<open>Discovery over the sample roots. Over \<open>skills\<close>: the directory without marker file
  and the plain file leave no trace, the bundle that does not parse is reported, and the
  mapping holds the two bundles that remain. Over \<open>drafts\<close>, whose only bundle does not
  parse: the empty mapping. Over \<open>more\<close>: the bundle with the empty description is
  registered and then reported as failed, for the slice of \<open>None\<close>; the bundle whose name
  is a list is reported and not registered.\<close>

lemma sample_discovery:
  "discover_skills sample_env (fresh ''skills'') []
     = (Inr [(PStr ''pptx'', pptx_meta), (PStr ''open'', open_meta)], sample_loader,
        [Discovered ''pptx'', FailedToLoad ''broken'' ''while parsing a flow node'',
         Discovered ''open''],
        [Read ''skills/pptx/SKILL.md'', Read ''skills/broken/SKILL.md'',
         Read ''skills/open/SKILL.md''])
   \<and> discover_skills sample_env (fresh ''drafts'') []
     = (Inr [], fresh ''drafts'', [FailedToLoad ''broken'' ''while parsing a flow node''],
        [Read ''drafts/broken/SKILL.md''])
   \<and> discover_skills sample_env (fresh ''skills/notes'') []
     = (Inr [], fresh ''skills/notes'', [NoSkillFolders], [])
   \<and> discover_skills sample_env (fresh ''more'') []
     = (Inr [(PStr ''nodesc'', nodesc_meta)],
        fresh ''more''\<lparr>skill_metadata := [(PStr ''nodesc'', nodesc_meta)]\<rparr>,
        [Discovered ''nodesc'',
         FailedToLoad ''nodesc'' (quoted ''NoneType'' @ '' object is not subscriptable''),
         FailedToLoad ''listname'' (''unhashable type: '' @ quoted ''list'')],
        [Read ''more/nodesc/SKILL.md'', Read ''more/listname/SKILL.md''])"
  by code_simp

text \<open>
  Claim C7, evaluated. The claim holds for the bundles (see the lemmas above) but not
  for the root: a root that exists and cannot be listed passes the constructor, whose
  only test is \<open>exists\<close>, and \<open>discover_skills\<close> then raises, the listing being outside
  every \<open>try\<close>. The path \<open>skills/README.md\<close> exists and is a plain file: the catalog is
  constructed, and discovery ends with \<open>NotADirectoryError\<close>. The directory \<open>locked\<close>
  exists and may not be read: the catalog is constructed, and discovery ends with
  \<open>PermissionError\<close>. So a root other than a missing one causes a fatal error, and not
  at construction.
\<close>

theorem existing_root_fails_in_discovery:
  "fs_exists sample_env ''skills/README.md'' []
   \<and> \<not> fs_is_dir sample_env ''skills/README.md'' []
   \<and> SkillLoader_init sample_env ''skills/README.md'' [] = Inr (fresh ''skills/README.md'')
   \<and> discover_skills sample_env (fresh ''skills/README.md'') []
       = (Inl (NotADirectoryError (''[Errno 20] Not a directory: '' @ quoted ''skills/README.md'')),
          fresh ''skills/README.md'', [], [])
   \<and> fs_exists sample_env ''locked'' []
   \<and> fs_is_dir sample_env ''locked'' []
   \<and> SkillLoader_init sample_env ''locked'' [] = Inr (fresh ''locked'')
   \<and> discover_skills sample_env (fresh ''locked'') []
       = (Inl (PermissionError (''[Errno 13] Permission denied: '' @ quoted ''locked'')),
          fresh ''locked'', [], [])"
  by code_simp

text \<open>
  Claim C10. For a marker file that begins with \<open>---\<close>, the descriptor is built from
  the YAML parse of the text after these three characters up to the leftmost later
  occurrence of \<open>---\<close>, wherever in the file it stands, and of all the rest of the file when
  there is no later occurrence; in that case the bundle is registered all the same, given
  that the rest parses as a mapping (with a string as the name, or without a name, the
  folder's name then being taken).
\<close>

theorem front_matter_needs_no_closing_delimiter:
  assumes "fs_read_text env (fs_join env skill_folder ''SKILL.md'') w = (Inr content, w')"
    and "startswith content ''---''"
  shows "((\<forall>j. \<not> startswith (drop j (drop 3 content)) ''---'') \<longrightarrow>
            load_skill_metadata env skill_folder w
              = (parse_frontmatter env skill_folder (drop 3 content), w'))
       \<and> (startswith (drop i (drop 3 content)) ''---''
            \<and> (\<forall>j<i. \<not> startswith (drop j (drop 3 content)) ''---'') \<longrightarrow>
            load_skill_metadata env skill_folder w
              = (parse_frontmatter env skill_folder (take i (drop 3 content)), w'))
       \<and> ((\<forall>j. \<not> startswith (drop j (drop 3 content)) ''---'')
            \<and> yaml_safe_load env (drop 3 content) = Inr (PDict fm)
            \<and> dict_get fm ''name'' (PStr (fs_name env skill_folder)) = PStr name \<longrightarrow>
            load_folders env [skill_folder] (ld, log, w) =
              (ld\<lparr>skill_metadata :=
                    AList.update (PStr name)
                      \<lparr>sm_name = PStr name,
                       sm_description = dict_get fm ''description'' (PStr []),
                       sm_path = skill_folder,
                       sm_license = dict_get fm ''license'' (PStr [])\<rparr>
                      (skill_metadata ld)\<rparr>,
               log @ Discovered name
                 # (case slice_error (dict_get fm ''description'' (PStr [])) of
                      None \<Rightarrow> []
                    | Some e \<Rightarrow> [FailedToLoad (fs_name env skill_folder) (exn_str e)]),
               w'))"
proof (intro conjI impI)
  assume "\<forall>j. \<not> startswith (drop j (drop 3 content)) ''---''"
  then have "find_sub ''---'' (drop 3 content) = None" by (rule find_sub_absent)
  then show "load_skill_metadata env skill_folder w
              = (parse_frontmatter env skill_folder (drop 3 content), w')"
    using load_skill_metadata_front [OF assms] by simp
next
  assume "startswith (drop i (drop 3 content)) ''---''
            \<and> (\<forall>j<i. \<not> startswith (drop j (drop 3 content)) ''---'')"
  then have "find_sub ''---'' (drop 3 content) = Some i" by (simp add: find_sub_least)
  then show "load_skill_metadata env skill_folder w
              = (parse_frontmatter env skill_folder (take i (drop 3 content)), w')"
    using load_skill_metadata_front [OF assms] by simp
next
  assume a: "(\<forall>j. \<not> startswith (drop j (drop 3 content)) ''---'')
            \<and> yaml_safe_load env (drop 3 content) = Inr (PDict fm)
            \<and> dict_get fm ''name'' (PStr (fs_name env skill_folder)) = PStr name"
  then have "find_sub ''---'' (drop 3 content) = None" by (simp add: find_sub_absent)
  then have "load_skill_metadata env skill_folder w
              = (parse_frontmatter env skill_folder (drop 3 content), w')"
    using load_skill_metadata_front [OF assms] by simp
  with a show "load_folders env [skill_folder] (ld, log, w) =
              (ld\<lparr>skill_metadata :=
                    AList.update (PStr name)
                      \<lparr>sm_name = PStr name,
                       sm_description = dict_get fm ''description'' (PStr []),
                       sm_path = skill_folder,
                       sm_license = dict_get fm ''license'' (PStr [])\<rparr>
                      (skill_metadata ld)\<rparr>,
               log @ Discovered name
                 # (case slice_error (dict_get fm ''description'' (PStr [])) of
                      None \<Rightarrow> []
                    | Some e \<Rightarrow> [FailedToLoad (fs_name env skill_folder) (exn_str e)]),
               w')"
    by (simp add: parse_frontmatter_def Let_def py_format_def split: option.splits)
qed

theorem front_matter_needs_no_closing_delimiter_witness:
  "fs_read_text sample_env (fs_join sample_env ''skills/open'' ''SKILL.md'') []
     = (Inr (''---'' @ open_front_matter), [Read ''skills/open/SKILL.md''])
   \<and> startswith (''---'' @ open_front_matter) ''---''
   \<and> find_sub ''---'' (drop 3 (''---'' @ open_front_matter)) = None
   \<and> yaml_safe_load sample_env (drop 3 (''---'' @ open_front_matter))
       = Inr (PDict [(''name'', PStr ''open''), (''description'', PStr ''never closed'')])
   \<and> load_skill_metadata sample_env ''skills/open'' []
       = (Inr (Some open_meta), [Read ''skills/open/SKILL.md''])
   \<and> load_folders sample_env [''skills/open''] (fresh ''skills'', [], [])
       = (fresh ''skills''\<lparr>skill_metadata := [(PStr ''open'', open_meta)]\<rparr>, [Discovered ''open''],
          [Read ''skills/open/SKILL.md''])
   \<and> fs_read_text sample_env (fs_join sample_env ''skills/pptx'' ''SKILL.md'') []
       = (Inr pptx_skill_md, [Read ''skills/pptx/SKILL.md''])
   \<and> startswith pptx_skill_md ''---''
   \<and> find_sub ''---'' (drop 3 pptx_skill_md) = Some 49
   \<and> take 49 (drop 3 pptx_skill_md) = pptx_front_matter
   \<and> load_skill_metadata sample_env ''skills/pptx'' []
       = (Inr (Some pptx_meta), [Read ''skills/pptx/SKILL.md''])"
proof -
  have open_read: "fs_read_text sample_env (fs_join sample_env ''skills/open'' ''SKILL.md'') []
     = (Inr (''---'' @ open_front_matter), [Read ''skills/open/SKILL.md''])"
    by code_simp
  have open_start: "startswith (''---'' @ open_front_matter) ''---''" by code_simp
  have open_find: "find_sub ''---'' (drop 3 (''---'' @ open_front_matter)) = None"
    by code_simp
  then have unclosed: "\<forall>j. \<not> startswith (drop j (drop 3 (''---'' @ open_front_matter))) ''---''"
    using find_sub_None by blast
  have open_yaml: "yaml_safe_load sample_env (drop 3 (''---'' @ open_front_matter))
       = Inr (PDict [(''name'', PStr ''open''), (''description'', PStr ''never closed'')])"
    by code_simp
  have open_name: "dict_get [(''name'', PStr ''open''), (''description'', PStr ''never closed'')]
        ''name'' (PStr (fs_name sample_env ''skills/open'')) = PStr ''open''"
    by code_simp
  note open_thm = front_matter_needs_no_closing_delimiter [OF open_read open_start,
      where i = 0
        and fm = "[(''name'', PStr ''open''), (''description'', PStr ''never closed'')]"
        and name = "''open''" and ld = "fresh ''skills''" and log = "[]"]
  have open_parse: "parse_frontmatter sample_env ''skills/open'' (drop 3 (''---'' @ open_front_matter))
       = Inr (Some open_meta)"
    by code_simp
  have "load_skill_metadata sample_env ''skills/open'' []
       = (parse_frontmatter sample_env ''skills/open'' (drop 3 (''---'' @ open_front_matter)),
          [Read ''skills/open/SKILL.md''])"
    using open_thm unclosed by blast
  then have open_meta: "load_skill_metadata sample_env ''skills/open'' []
       = (Inr (Some open_meta), [Read ''skills/open/SKILL.md''])"
    unfolding open_parse .
  have open_step: "load_folders sample_env [''skills/open''] (fresh ''skills'', [], []) =
              (fresh ''skills''\<lparr>skill_metadata :=
                    AList.update (PStr ''open'')
                      \<lparr>sm_name = PStr ''open'',
                       sm_description =
                         dict_get [(''name'', PStr ''open''), (''description'', PStr ''never closed'')]
                           ''description'' (PStr []),
                       sm_path = ''skills/open'',
                       sm_license =
                         dict_get [(''name'', PStr ''open''), (''description'', PStr ''never closed'')]
                           ''license'' (PStr [])\<rparr>
                      (skill_metadata (fresh ''skills''))\<rparr>,
               [] @ Discovered ''open''
                 # (case slice_error
                           (dict_get [(''name'', PStr ''open''), (''description'', PStr ''never closed'')]
                              ''description'' (PStr [])) of
                      None \<Rightarrow> []
                    | Some e \<Rightarrow> [FailedToLoad (fs_name sample_env ''skills/open'') (exn_str e)]),
               [Read ''skills/open/SKILL.md''])"
    using open_thm unclosed open_yaml open_name by blast
  have open_value: "(fresh ''skills''\<lparr>skill_metadata :=
                    AList.update (PStr ''open'')
                      \<lparr>sm_name = PStr ''open'',
                       sm_description =
                         dict_get [(''name'', PStr ''open''), (''description'', PStr ''never closed'')]
                           ''description'' (PStr []),
                       sm_path = ''skills/open'',
                       sm_license =
                         dict_get [(''name'', PStr ''open''), (''description'', PStr ''never closed'')]
                           ''license'' (PStr [])\<rparr>
                      (skill_metadata (fresh ''skills''))\<rparr>,
               [] @ Discovered ''open''
                 # (case slice_error
                           (dict_get [(''name'', PStr ''open''), (''description'', PStr ''never closed'')]
                              ''description'' (PStr [])) of
                      None \<Rightarrow> []
                    | Some e \<Rightarrow> [FailedToLoad (fs_name sample_env ''skills/open'') (exn_str e)]),
               [Read ''skills/open/SKILL.md''])
       = (fresh ''skills''\<lparr>skill_metadata := [(PStr ''open'', open_meta)]\<rparr>, [Discovered ''open''],
          [Read ''skills/open/SKILL.md''])"
    by code_simp
  have open_found: "load_folders sample_env [''skills/open''] (fresh ''skills'', [], [])
       = (fresh ''skills''\<lparr>skill_metadata := [(PStr ''open'', open_meta)]\<rparr>, [Discovered ''open''],
          [Read ''skills/open/SKILL.md''])"
    using open_step open_value by (rule trans)
  have pptx_read: "fs_read_text sample_env (fs_join sample_env ''skills/pptx'' ''SKILL.md'') []
       = (Inr pptx_skill_md, [Read ''skills/pptx/SKILL.md''])"
    by code_simp
  have pptx_start: "startswith pptx_skill_md ''---''" by code_simp
  have pptx_find: "find_sub ''---'' (drop 3 pptx_skill_md) = Some 49" by code_simp
  have pptx_front: "take 49 (drop 3 pptx_skill_md) = pptx_front_matter" by code_simp
  have closed: "startswith (drop 49 (drop 3 pptx_skill_md)) ''---''
            \<and> (\<forall>j<49. \<not> startswith (drop j (drop 3 pptx_skill_md)) ''---'')"
    using find_sub_Some [OF pptx_find] by simp
  have pptx_parse: "parse_frontmatter sample_env ''skills/pptx'' pptx_front_matter
       = Inr (Some pptx_meta)"
    by code_simp
  have "load_skill_metadata sample_env ''skills/pptx'' []
       = (parse_frontmatter sample_env ''skills/pptx'' (take 49 (drop 3 pptx_skill_md)),
          [Read ''skills/pptx/SKILL.md''])"
    using front_matter_needs_no_closing_delimiter [OF pptx_read pptx_start, of 49] closed
    by blast
  then have pptx_meta: "load_skill_metadata sample_env ''skills/pptx'' []
       = (Inr (Some pptx_meta), [Read ''skills/pptx/SKILL.md''])"
    unfolding pptx_front pptx_parse .
  show ?thesis
    using open_read open_start open_find open_yaml open_meta open_found pptx_read pptx_start
      pptx_find pptx_front pptx_meta
    by (intro conjI)
qed

section \<open>Properties of the reasoning loop\<close>

lemma process_tool_call_ok:
  "process_tool_call env tc st = (None, st') \<Longrightarrow>
   \<exists>r. full_messages st' = full_messages st @ [ToolMsg (tc_id tc) (tc_name tc) r]
       \<and> gateway_calls st' = gateway_calls st"
  by (auto simp: process_tool_call_def Let_def
           split: prod.splits if_splits pyval.splits sum.splits option.splits)

lemma process_tool_call_err:
  "process_tool_call env tc st = (Some e, st') \<Longrightarrow>
   full_messages st' = full_messages st \<and> gateway_calls st' = gateway_calls st"
  by (auto simp: process_tool_call_def Let_def
           split: prod.splits if_splits pyval.splits sum.splits option.splits)

lemma process_tool_calls_ok:
  "process_tool_calls env tcs st = (None, st') \<Longrightarrow>
   \<exists>rs. length rs = length tcs
        \<and> full_messages st' =
            full_messages st @ map (\<lambda>(tc, r). ToolMsg (tc_id tc) (tc_name tc) r) (zip tcs rs)
        \<and> gateway_calls st' = gateway_calls st"
proof (induction tcs arbitrary: st)
  case Nil
  then show ?case by simp
next
  case (Cons tc tcs)
  from Cons.prems obtain st1 where
    one: "process_tool_call env tc st = (None, st1)" and
    rest: "process_tool_calls env tcs st1 = (None, st')"
    by (auto split: prod.splits option.splits)
  from process_tool_call_ok [OF one] obtain r where
    r: "full_messages st1 = full_messages st @ [ToolMsg (tc_id tc) (tc_name tc) r]"
       "gateway_calls st1 = gateway_calls st" by blast
  from Cons.IH [OF rest] obtain rs where
    rs: "length rs = length tcs"
        "full_messages st' =
            full_messages st1 @ map (\<lambda>(tc, r). ToolMsg (tc_id tc) (tc_name tc) r) (zip tcs rs)"
        "gateway_calls st' = gateway_calls st1" by blast
  show ?case
    by (rule exI [of _ "r # rs"]) (simp add: r rs)
qed

lemma process_tool_calls_frame:
  "gateway_calls (snd (process_tool_calls env tcs st)) = gateway_calls st
   \<and> (\<exists>ext. full_messages (snd (process_tool_calls env tcs st)) = full_messages st @ ext)"
proof (induction tcs arbitrary: st)
  case Nil
  then show ?case by simp
next
  case (Cons tc tcs)
  show ?case
  proof (cases "process_tool_call env tc st")
    case (Pair r st1)
    show ?thesis
    proof (cases r)
      case None
      with Pair process_tool_call_ok [of env tc st st1] Cons.IH [of st1]
      show ?thesis by auto
    next
      case (Some e)
      with Pair process_tool_call_err [of env tc st e st1]
      show ?thesis by auto
    qed
  qed
qed

lemma process_tool_calls_frame':
  "process_tool_calls env tcs st = (r, st2) \<Longrightarrow>
   gateway_calls st2 = gateway_calls st \<and> (\<exists>ext. full_messages st2 = full_messages st @ ext)"
  using process_tool_calls_frame [of env tcs st] by simp

lemma chat_round_frame:
  "gateway_calls (snd (chat_round env gw st)) = gateway_calls st @ [full_messages st]
   \<and> (\<exists>ext. full_messages (snd (chat_round env gw st)) = full_messages st @ ext)"
proof (cases "gw (full_messages st) (offered_tools (st_agent st)) (st_world st)")
  case (Pair r w')
  show ?thesis
  proof (cases r)
    case (Inl e)
    with Pair show ?thesis by (simp add: chat_round_def)
  next
    case (Inr resp)
    define st1 where "st1 = st\<lparr>st_world := w',
                        gateway_calls := gateway_calls st @ [full_messages st],
                        full_messages := full_messages st @ resp\<rparr>"
    have st1: "gateway_calls st1 = gateway_calls st @ [full_messages st]"
         "full_messages st1 = full_messages st @ resp"
      by (simp_all add: st1_def)
    have f: "\<And>tcs r st2. process_tool_calls env tcs st1 = (r, st2) \<Longrightarrow>
       gateway_calls st2 = gateway_calls st @ [full_messages st]
       \<and> (\<exists>ext. full_messages st2 = full_messages st @ ext)"
      using process_tool_calls_frame' [of env _ st1] st1 by fastforce
    have "chat_round env gw st =
      (if full_messages st1 = []
              then (Some (Inl (IndexError ''list index out of range'')), st1)
              else (case last (full_messages st1) of
                 AssistantMsg content (Some tool_calls) \<Rightarrow>
                   (case process_tool_calls env tool_calls st1 of
                      (Some e, st2) \<Rightarrow> (Some (Inl e), st2)
                    | (None, st2) \<Rightarrow> (None, st2))
               | AssistantMsg content None \<Rightarrow> (Some (Inr (AssistantMsg content None)), st1)
               | _ \<Rightarrow> (None, st1)))"
      unfolding st1_def chat_round_def Let_def using Pair Inr by simp
    then show ?thesis
      using st1 f
      by (auto split: message.splits option.splits prod.splits)
  qed
qed

text \<open>The gateway is called at most \<open>maxr - round_count\<close> more times, whatever the
  backend answers and whether or not an exception ends the loop; every call is given a
  conversation that extends the one the loop started with, so its first message, the
  system message, is the same in every round.\<close>

lemma chat_loop_calls:
  "\<exists>ext. gateway_calls (snd (chat_loop env gw maxr rc st)) = gateway_calls st @ ext
         \<and> int (length ext) \<le> max 0 (maxr - rc)
         \<and> (\<forall>c \<in> set ext. \<exists>e. c = full_messages st @ e)
         \<and> (rc < maxr \<longrightarrow> ext \<noteq> [] \<and> hd ext = full_messages st)"
proof (induction env gw maxr rc st rule: chat_loop.induct)
  case (1 env gw maxr rc st)
  show ?case
  proof (cases "rc < maxr")
    case False
    then show ?thesis by (subst chat_loop.simps) simp
  next
    case True
    show ?thesis
    proof (cases "chat_round env gw st")
      case (Pair out st')
      have fr: "gateway_calls st' = gateway_calls st @ [full_messages st]"
        using chat_round_frame [of env gw st] Pair by simp
      obtain grown where grown: "full_messages st' = full_messages st @ grown"
        using chat_round_frame [of env gw st] Pair by auto
      show ?thesis
      proof (cases out)
        case (Some outcome)
        with Pair True fr show ?thesis by (subst chat_loop.simps) simp
      next
        case None
        from "1.IH" [OF True Pair [symmetric] None] obtain ext where ext:
          "gateway_calls (snd (chat_loop env gw maxr (rc + 1) st')) = gateway_calls st' @ ext"
          "int (length ext) \<le> max 0 (maxr - (rc + 1))"
          "\<forall>c \<in> set ext. \<exists>e. c = full_messages st' @ e" by blast
        have step: "chat_loop env gw maxr rc st = chat_loop env gw maxr (rc + 1) st'"
          using Pair True None by (subst chat_loop.simps) simp
        have "\<forall>c \<in> set (full_messages st # ext). \<exists>e. c = full_messages st @ e"
          using ext(3) grown by auto
        moreover have "int (length (full_messages st # ext)) \<le> max 0 (maxr - rc)"
          using ext(2) True by auto
        moreover have "gateway_calls (snd (chat_loop env gw maxr rc st))
                       = gateway_calls st @ (full_messages st # ext)"
          using step ext(1) fr by simp
        ultimately show ?thesis
          by (intro exI [of _ "full_messages st # ext"]) simp
      qed
    qed
  qed
qed

lemma chat_loop_messages_grow:
  "\<exists>ext. full_messages (snd (chat_loop env gw maxr rc st)) = full_messages st @ ext"
proof (induction env gw maxr rc st rule: chat_loop.induct)
  case (1 env gw maxr rc st)
  show ?case
  proof (cases "rc < maxr")
    case False
    then show ?thesis by (subst chat_loop.simps) simp
  next
    case True
    show ?thesis
    proof (cases "chat_round env gw st")
      case (Pair out st')
      obtain grown where grown: "full_messages st' = full_messages st @ grown"
        using chat_round_frame [of env gw st] Pair by auto
      show ?thesis
      proof (cases out)
        case (Some outcome)
        with Pair True grown show ?thesis by (subst chat_loop.simps) simp
      next
        case None
        from "1.IH" [OF True Pair [symmetric] None] obtain ext where
          "full_messages (snd (chat_loop env gw maxr (rc + 1) st')) = full_messages st' @ ext"
          by blast
        with Pair True None grown show ?thesis
          by (subst chat_loop.simps) simp
      qed
    qed
  qed
qed

text \<open>For a whole \<open>chat\<close> call: at most \<open>max_rounds\<close> gateway calls, and every one of
  them is given the system message that was built before the loop.\<close>

lemma gateway_calls_bounded:
  "int (length (gateway_calls (snd (BaseAgent_chat env ag messages w)))) \<le> max 0 (max_rounds ag)"
proof (cases "llm_client ag")
  case None
  then show ?thesis by (simp add: BaseAgent_chat_def)
next
  case (Some gw)
  from chat_loop_calls [of env gw "max_rounds ag" 0
      "\<lparr>st_agent = ag, full_messages = SystemMsg (system_content env ag) # messages,
        st_world = w, gateway_calls = []\<rparr>"]
  show ?thesis using Some by (auto simp: BaseAgent_chat_def)
qed

lemma system_message_fixed:
  "\<forall>c \<in> set (gateway_calls (snd (BaseAgent_chat env ag messages w))).
     \<exists>later. c = SystemMsg (system_content env ag) # messages @ later"
proof (cases "llm_client ag")
  case None
  then show ?thesis by (simp add: BaseAgent_chat_def)
next
  case (Some gw)
  from chat_loop_calls [of env gw "max_rounds ag" 0
      "\<lparr>st_agent = ag, full_messages = SystemMsg (system_content env ag) # messages,
        st_world = w, gateway_calls = []\<rparr>"]
  show ?thesis using Some by (auto simp: BaseAgent_chat_def)
qed

text \<open>A request that is not for \<open>use_skill\<close> and whose arguments are parsed without an
  exception: the tool message with the parse error, or with the registry's text for the
  parsed arguments, is appended, and nothing is raised.\<close>

lemma process_tool_call_registry:
  assumes "tc_name tc \<noteq> ''use_skill''"
    and "parse_tool_args env (tc_arguments tc) (tc_name tc) = Inr (a, err)"
  shows "\<exists>r w'. process_tool_call env tc st =
                   (None, st\<lparr>st_world := w',
                             full_messages :=
                               full_messages st @ [ToolMsg (tc_id tc) (tc_name tc) r]\<rparr>)
               \<and> (err = None \<longrightarrow> r = fst (execute_tool env (tc_name tc) a (st_world st)))
               \<and> (\<forall>m. err = Some m \<and> m \<noteq> [] \<longrightarrow> r = m)"
proof (cases "err \<noteq> None \<and> err \<noteq> Some []")
  case True
  then obtain m where m: "err = Some m" "m \<noteq> []" by auto
  have "process_tool_call env tc st =
          (None, st\<lparr>st_world := st_world st,
                    full_messages := full_messages st @ [ToolMsg (tc_id tc) (tc_name tc) m]\<rparr>)"
    using assms m by (simp add: process_tool_call_def Let_def)
  with m show ?thesis by blast
next
  case False
  obtain r w' where x: "execute_tool env (tc_name tc) a (st_world st) = (r, w')"
    by (cases "execute_tool env (tc_name tc) a (st_world st)")
  have "process_tool_call env tc st =
          (None, st\<lparr>st_world := w',
                    full_messages := full_messages st @ [ToolMsg (tc_id tc) (tc_name tc) r]\<rparr>)"
    using assms False x by (auto simp: process_tool_call_def Let_def)
  with False x show ?thesis by (intro exI [of _ r] exI [of _ w']) auto
qed

lemma process_tool_calls_registry:
  assumes "\<forall>tc \<in> set tcs. tc_name tc \<noteq> ''use_skill''
              \<and> (\<exists>r. parse_tool_args env (tc_arguments tc) (tc_name tc) = Inr r)"
  shows "\<exists>st2 rs. process_tool_calls env tcs st = (None, st2)
           \<and> full_messages st2 =
               full_messages st @ map (\<lambda>(tc, r). ToolMsg (tc_id tc) (tc_name tc) r) (zip tcs rs)
           \<and> gateway_calls st2 = gateway_calls st
           \<and> list_all2
               (\<lambda>tc r.
                  (\<forall>a. parse_tool_args env (tc_arguments tc) (tc_name tc) = Inr (a, None) \<longrightarrow>
                       (\<exists>w. r = fst (execute_tool env (tc_name tc) a w)))
                  \<and> (\<forall>a m. parse_tool_args env (tc_arguments tc) (tc_name tc) = Inr (a, Some m)
                            \<and> m \<noteq> [] \<longrightarrow> r = m))
               tcs rs"
  using assms
proof (induction tcs arbitrary: st)
  case Nil
  then show ?case by simp
next
  case (Cons tc tcs)
  from Cons.prems obtain a err where
    p: "parse_tool_args env (tc_arguments tc) (tc_name tc) = Inr (a, err)"
    and n: "tc_name tc \<noteq> ''use_skill''"
    by auto
  from process_tool_call_registry [OF n p, of st] obtain r w' where
    one: "process_tool_call env tc st =
            (None, st\<lparr>st_world := w',
                      full_messages := full_messages st @ [ToolMsg (tc_id tc) (tc_name tc) r]\<rparr>)"
    and r1: "err = None \<longrightarrow> r = fst (execute_tool env (tc_name tc) a (st_world st))"
    and r2: "\<forall>m. err = Some m \<and> m \<noteq> [] \<longrightarrow> r = m"
    by blast
  define st1 where "st1 = st\<lparr>st_world := w',
                      full_messages := full_messages st @ [ToolMsg (tc_id tc) (tc_name tc) r]\<rparr>"
  have rest: "\<forall>tc \<in> set tcs. tc_name tc \<noteq> ''use_skill''
              \<and> (\<exists>r. parse_tool_args env (tc_arguments tc) (tc_name tc) = Inr r)"
    using Cons.prems by simp
  from Cons.IH [OF rest, of st1] obtain st2 rs where
    ih: "process_tool_calls env tcs st1 = (None, st2)"
        "full_messages st2 =
           full_messages st1 @ map (\<lambda>(tc, r). ToolMsg (tc_id tc) (tc_name tc) r) (zip tcs rs)"
        "gateway_calls st2 = gateway_calls st1"
        "list_all2
               (\<lambda>tc r.
                  (\<forall>a. parse_tool_args env (tc_arguments tc) (tc_name tc) = Inr (a, None) \<longrightarrow>
                       (\<exists>w. r = fst (execute_tool env (tc_name tc) a w)))
                  \<and> (\<forall>a m. parse_tool_args env (tc_arguments tc) (tc_name tc) = Inr (a, Some m)
                            \<and> m \<noteq> [] \<longrightarrow> r = m))
               tcs rs"
    by blast
  have head: "(\<forall>a. parse_tool_args env (tc_arguments tc) (tc_name tc) = Inr (a, None) \<longrightarrow>
                       (\<exists>w. r = fst (execute_tool env (tc_name tc) a w)))
                  \<and> (\<forall>a m. parse_tool_args env (tc_arguments tc) (tc_name tc) = Inr (a, Some m)
                            \<and> m \<noteq> [] \<longrightarrow> r = m)"
    using p r1 r2 by auto
  have "process_tool_calls env (tc # tcs) st = (None, st2)"
    using one ih(1) by (simp add: st1_def)
  moreover have "full_messages st2 =
               full_messages st
               @ map (\<lambda>(tc, r). ToolMsg (tc_id tc) (tc_name tc) r) (zip (tc # tcs) (r # rs))"
    using ih(2) by (simp add: st1_def)
  moreover have "gateway_calls st2 = gateway_calls st"
    using ih(3) by (simp add: st1_def)
  moreover have "list_all2
               (\<lambda>tc r.
                  (\<forall>a. parse_tool_args env (tc_arguments tc) (tc_name tc) = Inr (a, None) \<longrightarrow>
                       (\<exists>w. r = fst (execute_tool env (tc_name tc) a w)))
                  \<and> (\<forall>a m. parse_tool_args env (tc_arguments tc) (tc_name tc) = Inr (a, Some m)
                            \<and> m \<noteq> [] \<longrightarrow> r = m))
               (tc # tcs) (r # rs)"
    using head ih(4) by simp
  ultimately show ?case by blast
qed

lemma process_tool_calls_no_raise:
  "\<forall>tc \<in> set tcs. tc_name tc \<noteq> ''use_skill''
       \<and> (\<exists>r. parse_tool_args env (tc_arguments tc) (tc_name tc) = Inr r) \<Longrightarrow>
   fst (process_tool_calls env tcs st) = None"
  using process_tool_calls_registry [of tcs env st] by auto

lemma chat_round_plain:
  assumes "gw (full_messages st) (offered_tools (st_agent st)) (st_world st) = (Inr (resp @ [AssistantMsg c None]), w')"
  shows "chat_round env gw st =
           (Some (Inr (AssistantMsg c None)),
            st\<lparr>st_world := w', gateway_calls := gateway_calls st @ [full_messages st],
               full_messages := full_messages st @ resp @ [AssistantMsg c None]\<rparr>)"
  using assms by (simp add: chat_round_def Let_def)

lemma chat_round_tool_calls:
  assumes "gw (full_messages st) (offered_tools (st_agent st)) (st_world st) = (Inr (resp @ [AssistantMsg c (Some tcs)]), w')"
  shows "chat_round env gw st =
           (case process_tool_calls env tcs
                   (st\<lparr>st_world := w', gateway_calls := gateway_calls st @ [full_messages st],
                      full_messages := full_messages st @ resp @ [AssistantMsg c (Some tcs)]\<rparr>) of
              (Some e, st2) \<Rightarrow> (Some (Inl e), st2)
            | (None, st2) \<Rightarrow> (None, st2))"
  using assms by (simp add: chat_round_def Let_def)

text \<open>A round that is not ended by an exception appends, after the assistant message,
  one tool message for each of its requests, in the order of the requests, each with the
  identifier and the tool name of its request.\<close>

lemma chat_round_tool_messages:
  assumes "gw (full_messages st) (offered_tools (st_agent st)) (st_world st)
             = (Inr (resp @ [AssistantMsg c (Some tcs)]), w')"
    and "chat_round env gw st = (None, st')"
  shows "\<exists>rs. length rs = length tcs
             \<and> full_messages st' =
                 full_messages st @ resp @ [AssistantMsg c (Some tcs)]
                 @ map (\<lambda>(tc, r). ToolMsg (tc_id tc) (tc_name tc) r) (zip tcs rs)"
proof -
  define st1 where "st1 = st\<lparr>st_world := w',
                      gateway_calls := gateway_calls st @ [full_messages st],
                      full_messages := full_messages st @ resp @ [AssistantMsg c (Some tcs)]\<rparr>"
  have "chat_round env gw st =
           (case process_tool_calls env tcs st1 of
              (Some e, st2) \<Rightarrow> (Some (Inl e), st2)
            | (None, st2) \<Rightarrow> (None, st2))"
    unfolding st1_def
    by (rule chat_round_tool_calls [of gw st resp c tcs w' env, OF assms(1)])
  with assms(2) have "process_tool_calls env tcs st1 = (None, st')"
    by (auto split: prod.splits option.splits)
  from process_tool_calls_ok [OF this] show ?thesis
    by (auto simp: st1_def)
qed

lemma chat_loop_continue:
  "rc < maxr \<Longrightarrow> chat_round env gw st = (None, st') \<Longrightarrow>
   chat_loop env gw maxr rc st = chat_loop env gw maxr (rc + 1) st'"
  by (subst chat_loop.simps) simp

lemma chat_loop_stop:
  "rc < maxr \<Longrightarrow> chat_round env gw st = (Some outcome, st') \<Longrightarrow>
   chat_loop env gw maxr rc st = (outcome, st')"
  by (subst chat_loop.simps) simp

text \<open>When every round ends by going back to the loop's test, the loop makes exactly
  \<open>maxr - round_count\<close> calls and returns the last message of the conversation.\<close>

lemma chat_loop_all_continue:
  assumes "\<And>s. fst (chat_round env gw s) = None"
  shows "\<exists>st'. chat_loop env gw maxr rc st =
           ((if full_messages st' \<noteq> [] then Inr (last (full_messages st'))
             else Inr (AssistantMsg (Some ''Error: Max reasoning rounds reached'') None)), st')
         \<and> int (length (gateway_calls st')) = int (length (gateway_calls st)) + max 0 (maxr - rc)"
  using assms
proof (induction env gw maxr rc st rule: chat_loop.induct)
  case (1 env gw maxr rc st)
  show ?case
  proof (cases "rc < maxr")
    case False
    then show ?thesis by (subst chat_loop.simps) simp
  next
    case True
    obtain st1 where r: "chat_round env gw st = (None, st1)"
      using "1.prems" [of st] by (cases "chat_round env gw st") auto
    have fr: "gateway_calls st1 = gateway_calls st @ [full_messages st]"
      using chat_round_frame [of env gw st] r by simp
    from "1.IH" [OF True r [symmetric] refl "1.prems"] obtain st' where
      "chat_loop env gw maxr (rc + 1) st1 =
           ((if full_messages st' \<noteq> [] then Inr (last (full_messages st'))
             else Inr (AssistantMsg (Some ''Error: Max reasoning rounds reached'') None)), st')"
      "int (length (gateway_calls st')) = int (length (gateway_calls st1)) + max 0 (maxr - (rc + 1))"
      by blast
    then show ?thesis
      using chat_loop_continue [OF True r] fr True by (intro exI [of _ st']) auto
  qed
qed

text \<open>A backend whose every reply ends in an assistant message with tool-call requests,
  none of them for \<open>use_skill\<close> and all with arguments that are parsed without an
  exception: \<open>chat\<close> makes exactly \<open>max_rounds\<close> gateway calls and returns the last
  message of the conversation.\<close>

lemma chat_round_registry_only:
  assumes "\<And>messages tools w. \<exists>resp c tcs w'.
             gw messages tools w = (Inr (resp @ [AssistantMsg c (Some tcs)]), w')
             \<and> (\<forall>tc \<in> set tcs. tc_name tc \<noteq> ''use_skill''
                    \<and> (\<exists>r. parse_tool_args env (tc_arguments tc) (tc_name tc) = Inr r))"
  shows "fst (chat_round env gw st) = None"
proof -
  from assms [of "full_messages st" "offered_tools (st_agent st)" "st_world st"]
  obtain resp c tcs w' where
    r: "gw (full_messages st) (offered_tools (st_agent st)) (st_world st)
          = (Inr (resp @ [AssistantMsg c (Some tcs)]), w')"
    and n: "\<forall>tc \<in> set tcs. tc_name tc \<noteq> ''use_skill''
                    \<and> (\<exists>r. parse_tool_args env (tc_arguments tc) (tc_name tc) = Inr r)"
    by blast
  define st1 where "st1 = st\<lparr>st_world := w',
                      gateway_calls := gateway_calls st @ [full_messages st],
                      full_messages := full_messages st @ resp @ [AssistantMsg c (Some tcs)]\<rparr>"
  have "fst (process_tool_calls env tcs st1) = None"
    using n by (rule process_tool_calls_no_raise)
  then obtain st2 where "process_tool_calls env tcs st1 = (None, st2)"
    by (cases "process_tool_calls env tcs st1") auto
  then show ?thesis
    unfolding chat_round_tool_calls [of gw st resp c tcs w' env, OF r] st1_def [symmetric]
    by simp
qed

lemma registry_only_backend_uses_all_rounds:
  assumes "\<And>messages tools w. \<exists>resp c tcs w'.
             gw messages tools w = (Inr (resp @ [AssistantMsg c (Some tcs)]), w')
             \<and> (\<forall>tc \<in> set tcs. tc_name tc \<noteq> ''use_skill''
                    \<and> (\<exists>r. parse_tool_args env (tc_arguments tc) (tc_name tc) = Inr r))"
  shows "\<exists>st'. BaseAgent_chat env (ag\<lparr>llm_client := Some gw\<rparr>) messages w
                 = (Inr (last (full_messages st')), st')
              \<and> int (length (gateway_calls st')) = max 0 (max_rounds ag)"
proof -
  define st where "st = \<lparr>st_agent = ag\<lparr>llm_client := Some gw\<rparr>,
             full_messages = SystemMsg (system_content env (ag\<lparr>llm_client := Some gw\<rparr>)) # messages,
             st_world = w, gateway_calls = []\<rparr>"
  have all: "\<And>s. fst (chat_round env gw s) = None"
    using assms by (rule chat_round_registry_only)
  from chat_loop_all_continue [of env gw "max_rounds ag" 0 st, OF all] obtain st' where
    st': "chat_loop env gw (max_rounds ag) 0 st =
           ((if full_messages st' \<noteq> [] then Inr (last (full_messages st'))
             else Inr (AssistantMsg (Some ''Error: Max reasoning rounds reached'') None)), st')"
     "int (length (gateway_calls st')) = int (length (gateway_calls st)) + max 0 (max_rounds ag - 0)"
    by blast
  have "full_messages st' \<noteq> []"
    using chat_loop_messages_grow [of env gw "max_rounds ag" 0 st] st'(1)
    by (auto simp: st_def)
  with st' show ?thesis
    by (intro exI [of _ st']) (simp add: BaseAgent_chat_def st_def)
qed

lemma offered_tools_nonempty: "offered_tools ag \<noteq> []"
  by (simp add: offered_tools_def tool_names_def)

text \<open>A round whose reply ends in requests none of which is for \<open>use_skill\<close>, all with
  arguments that are parsed without an exception.\<close>

lemma chat_round_registry:
  assumes "gw (full_messages st) (offered_tools (st_agent st)) (st_world st)
             = (Inr (resp @ [AssistantMsg c (Some tcs)]), w2)"
    and "\<forall>tc \<in> set tcs. tc_name tc \<noteq> ''use_skill''
              \<and> (\<exists>r. parse_tool_args env (tc_arguments tc) (tc_name tc) = Inr r)"
  shows "\<exists>st2 rs. chat_round env gw st = (None, st2)
           \<and> full_messages st2 =
               full_messages st @ resp @ [AssistantMsg c (Some tcs)]
               @ map (\<lambda>(tc, r). ToolMsg (tc_id tc) (tc_name tc) r) (zip tcs rs)
           \<and> gateway_calls st2 = gateway_calls st @ [full_messages st]
           \<and> list_all2
               (\<lambda>tc r.
                  (\<forall>a. parse_tool_args env (tc_arguments tc) (tc_name tc) = Inr (a, None) \<longrightarrow>
                       (\<exists>w. r = fst (execute_tool env (tc_name tc) a w)))
                  \<and> (\<forall>a m. parse_tool_args env (tc_arguments tc) (tc_name tc) = Inr (a, Some m)
                            \<and> m \<noteq> [] \<longrightarrow> r = m))
               tcs rs"
proof -
  define st1 where "st1 = st\<lparr>st_world := w2,
                      gateway_calls := gateway_calls st @ [full_messages st],
                      full_messages := full_messages st @ resp @ [AssistantMsg c (Some tcs)]\<rparr>"
  from process_tool_calls_registry [OF assms(2), of st1] obtain st2 rs where
    p: "process_tool_calls env tcs st1 = (None, st2)"
       "full_messages st2 =
           full_messages st1 @ map (\<lambda>(tc, r). ToolMsg (tc_id tc) (tc_name tc) r) (zip tcs rs)"
       "gateway_calls st2 = gateway_calls st1"
       "list_all2
               (\<lambda>tc r.
                  (\<forall>a. parse_tool_args env (tc_arguments tc) (tc_name tc) = Inr (a, None) \<longrightarrow>
                       (\<exists>w. r = fst (execute_tool env (tc_name tc) a w)))
                  \<and> (\<forall>a m. parse_tool_args env (tc_arguments tc) (tc_name tc) = Inr (a, Some m)
                            \<and> m \<noteq> [] \<longrightarrow> r = m))
               tcs rs"
    by blast
  have "chat_round env gw st = (None, st2)"
    unfolding chat_round_tool_calls [of gw st resp c tcs w2 env, OF assms(1)] st1_def [symmetric]
    using p(1) by simp
  moreover have "full_messages st2 =
               full_messages st @ resp @ [AssistantMsg c (Some tcs)]
               @ map (\<lambda>(tc, r). ToolMsg (tc_id tc) (tc_name tc) r) (zip tcs rs)"
    using p(2) by (simp add: st1_def)
  moreover have "gateway_calls st2 = gateway_calls st @ [full_messages st]"
    using p(3) by (simp add: st1_def)
  ultimately show ?thesis using p(4) by blast
qed

text \<open>The same for a reply that is one assistant message with one such request whose
  arguments parse: the state after the round, exactly.\<close>

lemma chat_round_one_tool:
  assumes "gw (full_messages st) (offered_tools (st_agent st)) (st_world st)
             = (Inr [AssistantMsg c (Some [tc])], w2)"
    and "tc_name tc \<noteq> ''use_skill''"
    and "parse_tool_args env (tc_arguments tc) (tc_name tc) = Inr (a, None)"
    and "execute_tool env (tc_name tc) a w2 = (reply, w3)"
  shows "chat_round env gw st =
           (None, st\<lparr>st_world := w3, gateway_calls := gateway_calls st @ [full_messages st],
                      full_messages := full_messages st
                        @ [AssistantMsg c (Some [tc]), ToolMsg (tc_id tc) (tc_name tc) reply]\<rparr>)"
  using assms by (simp add: chat_round_def process_tool_call_def Let_def)

text \<open>
  Claim C4, as amended. \<open>execute_tool\<close> returns a text for every name and every arguments
  and has no exception among its results: a name that is not registered gives the text
  \<open>Error: Unknown tool '<name>'\<close>, an exception of a handler gives the text
  \<open>Error executing <name>: <message>\<close>. For every reply of the backend that ends in an
  assistant message with tool-call requests, none of them for \<open>use_skill\<close> and all with
  arguments that are parsed without an exception: the round appends, after the reply, one
  tool message per request, in order, each with the text \<open>execute_tool\<close> returns for the
  request's name and parsed arguments (or with the parse error), and goes back to the
  loop's test instead of returning; if the round limit is not reached, the gateway is
  called again, with the conversation that ends in these tool messages, and if it is
  reached, \<open>chat\<close> returns the last message of the conversation. For a reply that is
  one assistant message with one such request, the last conjunct gives the state after the
  round exactly: the tool runs in the world the gateway left, and the tool message with
  its text is what \<open>chat\<close> returns at the limit.
\<close>

theorem tool_errors_are_relayed:
  "(tool_name \<notin> set tool_names \<longrightarrow>
      execute_tool env tool_name args w
        = (''Error: Unknown tool '' @ [CHR 0x27] @ tool_name @ [CHR 0x27], w))
   \<and> (known \<in> set tool_names \<and> run_handler env known args w = (Inl e, w1) \<longrightarrow>
        execute_tool env known args w = (''Error executing '' @ known @ '': '' @ exn_str e, w1))
   \<and> (known \<in> set tool_names \<and> run_handler env known args w = (Inr result, w1) \<longrightarrow>
        execute_tool env known args w = (result, w1))
   \<and> (rc < maxr
        \<and> gw (full_messages st) (offered_tools (st_agent st)) (st_world st)
            = (Inr (resp @ [AssistantMsg c (Some tcs)]), w2)
        \<and> (\<forall>tc \<in> set tcs. tc_name tc \<noteq> ''use_skill''
               \<and> (\<exists>r. parse_tool_args env (tc_arguments tc) (tc_name tc) = Inr r)) \<longrightarrow>
        (\<exists>st2 rs.
            chat_round env gw st = (None, st2)
            \<and> full_messages st2 =
                full_messages st @ resp @ [AssistantMsg c (Some tcs)]
                @ map (\<lambda>(tc, r). ToolMsg (tc_id tc) (tc_name tc) r) (zip tcs rs)
            \<and> list_all2
                (\<lambda>tc r.
                   (\<forall>a. parse_tool_args env (tc_arguments tc) (tc_name tc) = Inr (a, None) \<longrightarrow>
                        (\<exists>w. r = fst (execute_tool env (tc_name tc) a w)))
                   \<and> (\<forall>a m. parse_tool_args env (tc_arguments tc) (tc_name tc) = Inr (a, Some m)
                             \<and> m \<noteq> [] \<longrightarrow> r = m))
                tcs rs
            \<and> chat_loop env gw maxr rc st = chat_loop env gw maxr (rc + 1) st2
            \<and> (rc + 1 < maxr \<longrightarrow>
                 (\<exists>ext. gateway_calls (snd (chat_loop env gw maxr rc st))
                          = gateway_calls st @ [full_messages st, full_messages st2] @ ext))
            \<and> (\<not> rc + 1 < maxr \<longrightarrow>
                 chat_loop env gw maxr rc st = (Inr (last (full_messages st2)), st2))))
   \<and> (rc < maxr
        \<and> gw (full_messages st) (offered_tools (st_agent st)) (st_world st)
            = (Inr [AssistantMsg c (Some [tc])], w2)
        \<and> tc_name tc \<noteq> ''use_skill''
        \<and> parse_tool_args env (tc_arguments tc) (tc_name tc) = Inr (a, None)
        \<and> execute_tool env (tc_name tc) a w2 = (reply, w3) \<longrightarrow>
        (let st3 = st\<lparr>st_world := w3,
                      gateway_calls := gateway_calls st @ [full_messages st],
                      full_messages := full_messages st
                        @ [AssistantMsg c (Some [tc]), ToolMsg (tc_id tc) (tc_name tc) reply]\<rparr>
         in chat_round env gw st = (None, st3)
            \<and> chat_loop env gw maxr rc st = chat_loop env gw maxr (rc + 1) st3
            \<and> (rc + 1 < maxr \<longrightarrow>
                 (\<exists>ext. gateway_calls (snd (chat_loop env gw maxr rc st))
                          = gateway_calls st @ [full_messages st, full_messages st3] @ ext))
            \<and> (\<not> rc + 1 < maxr \<longrightarrow>
                 chat_loop env gw maxr rc st
                   = (Inr (ToolMsg (tc_id tc) (tc_name tc) reply), st3))))"
proof (intro conjI impI)
  assume "tool_name \<notin> set tool_names"
  then show "execute_tool env tool_name args w
        = (''Error: Unknown tool '' @ [CHR 0x27] @ tool_name @ [CHR 0x27], w)"
    by (simp add: execute_tool_def)
next
  assume "known \<in> set tool_names \<and> run_handler env known args w = (Inl e, w1)"
  then show "execute_tool env known args w = (''Error executing '' @ known @ '': '' @ exn_str e, w1)"
    by (simp add: execute_tool_def)
next
  assume "known \<in> set tool_names \<and> run_handler env known args w = (Inr result, w1)"
  then show "execute_tool env known args w = (result, w1)"
    by (simp add: execute_tool_def)
next
  assume a: "rc < maxr
        \<and> gw (full_messages st) (offered_tools (st_agent st)) (st_world st)
            = (Inr (resp @ [AssistantMsg c (Some tcs)]), w2)
        \<and> (\<forall>tc \<in> set tcs. tc_name tc \<noteq> ''use_skill''
               \<and> (\<exists>r. parse_tool_args env (tc_arguments tc) (tc_name tc) = Inr r))"
  then have reply: "gw (full_messages st) (offered_tools (st_agent st)) (st_world st)
            = (Inr (resp @ [AssistantMsg c (Some tcs)]), w2)"
    and requests: "\<forall>tc \<in> set tcs. tc_name tc \<noteq> ''use_skill''
               \<and> (\<exists>r. parse_tool_args env (tc_arguments tc) (tc_name tc) = Inr r)"
    and budget: "rc < maxr"
    by simp_all
  from chat_round_registry [of gw st resp c tcs w2 env, OF reply requests] obtain st2 rs where
    round: "chat_round env gw st = (None, st2)"
    and msgs: "full_messages st2 =
                full_messages st @ resp @ [AssistantMsg c (Some tcs)]
                @ map (\<lambda>(tc, r). ToolMsg (tc_id tc) (tc_name tc) r) (zip tcs rs)"
    and calls: "gateway_calls st2 = gateway_calls st @ [full_messages st]"
    and texts: "list_all2
                (\<lambda>tc r.
                   (\<forall>a. parse_tool_args env (tc_arguments tc) (tc_name tc) = Inr (a, None) \<longrightarrow>
                        (\<exists>w. r = fst (execute_tool env (tc_name tc) a w)))
                   \<and> (\<forall>a m. parse_tool_args env (tc_arguments tc) (tc_name tc) = Inr (a, Some m)
                             \<and> m \<noteq> [] \<longrightarrow> r = m))
                tcs rs"
    by blast
  have step: "chat_loop env gw maxr rc st = chat_loop env gw maxr (rc + 1) st2"
    using budget round by (simp add: chat_loop_continue)
  have again: "\<exists>ext. gateway_calls (snd (chat_loop env gw maxr rc st))
                          = gateway_calls st @ [full_messages st, full_messages st2] @ ext"
    if "rc + 1 < maxr"
  proof -
    from chat_loop_calls [of env gw maxr "rc + 1" st2] that obtain ext where
      ext: "gateway_calls (snd (chat_loop env gw maxr (rc + 1) st2)) = gateway_calls st2 @ ext"
        "ext \<noteq> []" "hd ext = full_messages st2" by blast
    then obtain rest where "ext = full_messages st2 # rest" by (cases ext) auto
    with ext(1) step calls show ?thesis by simp
  qed
  have at_limit: "chat_loop env gw maxr rc st = (Inr (last (full_messages st2)), st2)"
    if "\<not> rc + 1 < maxr"
  proof -
    have "full_messages st2 \<noteq> []" using msgs by simp
    then have "chat_loop env gw maxr (rc + 1) st2 = (Inr (last (full_messages st2)), st2)"
      using that by (subst chat_loop.simps) simp
    then show ?thesis using step by simp
  qed
  show "\<exists>st2 rs.
            chat_round env gw st = (None, st2)
            \<and> full_messages st2 =
                full_messages st @ resp @ [AssistantMsg c (Some tcs)]
                @ map (\<lambda>(tc, r). ToolMsg (tc_id tc) (tc_name tc) r) (zip tcs rs)
            \<and> list_all2
                (\<lambda>tc r.
                   (\<forall>a. parse_tool_args env (tc_arguments tc) (tc_name tc) = Inr (a, None) \<longrightarrow>
                        (\<exists>w. r = fst (execute_tool env (tc_name tc) a w)))
                   \<and> (\<forall>a m. parse_tool_args env (tc_arguments tc) (tc_name tc) = Inr (a, Some m)
                             \<and> m \<noteq> [] \<longrightarrow> r = m))
                tcs rs
            \<and> chat_loop env gw maxr rc st = chat_loop env gw maxr (rc + 1) st2
            \<and> (rc + 1 < maxr \<longrightarrow>
                 (\<exists>ext. gateway_calls (snd (chat_loop env gw maxr rc st))
                          = gateway_calls st @ [full_messages st, full_messages st2] @ ext))
            \<and> (\<not> rc + 1 < maxr \<longrightarrow>
                 chat_loop env gw maxr rc st = (Inr (last (full_messages st2)), st2))"
    using round msgs texts step again at_limit by blast
next
  assume a: "rc < maxr
        \<and> gw (full_messages st) (offered_tools (st_agent st)) (st_world st)
            = (Inr [AssistantMsg c (Some [tc])], w2)
        \<and> tc_name tc \<noteq> ''use_skill''
        \<and> parse_tool_args env (tc_arguments tc) (tc_name tc) = Inr (a, None)
        \<and> execute_tool env (tc_name tc) a w2 = (reply, w3)"
  define st3 where "st3 = st\<lparr>st_world := w3,
                      gateway_calls := gateway_calls st @ [full_messages st],
                      full_messages := full_messages st
                        @ [AssistantMsg c (Some [tc]), ToolMsg (tc_id tc) (tc_name tc) reply]\<rparr>"
  have round: "chat_round env gw st = (None, st3)"
    unfolding st3_def using a chat_round_one_tool [of gw st c tc w2 env a reply w3] by blast
  have step: "chat_loop env gw maxr rc st = chat_loop env gw maxr (rc + 1) st3"
    using a round by (simp add: chat_loop_continue)
  have again: "\<exists>ext. gateway_calls (snd (chat_loop env gw maxr rc st))
                          = gateway_calls st @ [full_messages st, full_messages st3] @ ext"
    if "rc + 1 < maxr"
  proof -
    from chat_loop_calls [of env gw maxr "rc + 1" st3] that obtain ext where
      ext: "gateway_calls (snd (chat_loop env gw maxr (rc + 1) st3)) = gateway_calls st3 @ ext"
        "ext \<noteq> []" "hd ext = full_messages st3" by blast
    then obtain rest where "ext = full_messages st3 # rest" by (cases ext) auto
    with ext(1) step show ?thesis by (simp add: st3_def)
  qed
  have at_limit: "chat_loop env gw maxr rc st
                   = (Inr (ToolMsg (tc_id tc) (tc_name tc) reply), st3)"
    if "\<not> rc + 1 < maxr"
  proof -
    have "chat_loop env gw maxr (rc + 1) st3 = (Inr (last (full_messages st3)), st3)"
      using that by (subst chat_loop.simps) (simp add: st3_def)
    then show ?thesis using step by (simp add: st3_def)
  qed
  show "let st3 = st\<lparr>st_world := w3,
                      gateway_calls := gateway_calls st @ [full_messages st],
                      full_messages := full_messages st
                        @ [AssistantMsg c (Some [tc]), ToolMsg (tc_id tc) (tc_name tc) reply]\<rparr>
         in chat_round env gw st = (None, st3)
            \<and> chat_loop env gw maxr rc st = chat_loop env gw maxr (rc + 1) st3
            \<and> (rc + 1 < maxr \<longrightarrow>
                 (\<exists>ext. gateway_calls (snd (chat_loop env gw maxr rc st))
                          = gateway_calls st @ [full_messages st, full_messages st3] @ ext))
            \<and> (\<not> rc + 1 < maxr \<longrightarrow>
                 chat_loop env gw maxr rc st
                   = (Inr (ToolMsg (tc_id tc) (tc_name tc) reply), st3))"
    unfolding Let_def st3_def [symmetric] using round step again at_limit by blast
qed

theorem tool_errors_are_relayed_witness:
  "''foo'' \<notin> set tool_names
   \<and> execute_tool sample_env ''foo'' (PDict []) []
       = (''Error: Unknown tool '' @ [CHR 0x27] @ ''foo'' @ [CHR 0x27], [])
   \<and> ''execute_bash'' \<in> set tool_names
   \<and> run_handler sample_env ''execute_bash'' (PDict []) []
       = (Inl (TypeError (missing_arguments ''execute_bash'')), [])
   \<and> execute_tool sample_env ''execute_bash'' (PDict []) []
       = (''Error executing execute_bash: '' @ missing_arguments ''execute_bash'', [])
   \<and> (0::int) < 3
   \<and> gw_two_errors_then_answer (full_messages (sample_state gw_two_errors_then_answer 3))
        (offered_tools (st_agent (sample_state gw_two_errors_then_answer 3)))
        (st_world (sample_state gw_two_errors_then_answer 3))
       = (Inr [AssistantMsg None (Some two_requests)], [])
   \<and> list_all (\<lambda>tc. tc_name tc \<noteq> ''use_skill''
                  \<and> parse_tool_args sample_env (tc_arguments tc) (tc_name tc)
                      = Inr (PDict [], None)) two_requests
   \<and> (\<exists>ext. gateway_calls (snd (chat_loop sample_env gw_two_errors_then_answer 3 0
                                   (sample_state gw_two_errors_then_answer 3)))
         = [full_messages (sample_state gw_two_errors_then_answer 3),
            full_messages (sample_state gw_two_errors_then_answer 3)
              @ [AssistantMsg None (Some two_requests),
                 ToolMsg ''call_1'' ''foo''
                   (''Error: Unknown tool '' @ [CHR 0x27] @ ''foo'' @ [CHR 0x27]),
                 ToolMsg ''call_2'' ''execute_bash''
                   (''Error executing execute_bash: '' @ missing_arguments ''execute_bash'')]]
           @ ext)
   \<and> gw_unknown_then_answer (full_messages (sample_state gw_unknown_then_answer 3))
        (offered_tools (st_agent (sample_state gw_unknown_then_answer 3)))
        (st_world (sample_state gw_unknown_then_answer 3))
       = (Inr [AssistantMsg None
                (Some [\<lparr>tc_id = ''call_1'', tc_name = ''foo'', tc_arguments = PStr ''{}''\<rparr>])], [])
   \<and> parse_tool_args sample_env (PStr ''{}'') ''foo'' = Inr (PDict [], None)
   \<and> (\<exists>ext. gateway_calls (snd (chat_loop sample_env gw_unknown_then_answer 3 0
                                   (sample_state gw_unknown_then_answer 3)))
         = [full_messages (sample_state gw_unknown_then_answer 3),
            full_messages (sample_state gw_unknown_then_answer 3)
              @ [AssistantMsg None
                   (Some [\<lparr>tc_id = ''call_1'', tc_name = ''foo'', tc_arguments = PStr ''{}''\<rparr>]),
                 ToolMsg ''call_1'' ''foo''
                   (''Error: Unknown tool '' @ [CHR 0x27] @ ''foo'' @ [CHR 0x27])]] @ ext)"
proof -
  define st where "st = sample_state gw_two_errors_then_answer 3"
  define t1 where "t1 = \<lparr>tc_id = ''call_1'', tc_name = ''foo'', tc_arguments = PStr ''{}''\<rparr>"
  define t2 where
    "t2 = \<lparr>tc_id = ''call_2'', tc_name = ''execute_bash'', tc_arguments = PStr ''{}''\<rparr>"
  have two: "two_requests = [t1, t2]" by (simp add: two_requests_def t1_def t2_def)
  note relayed = tool_errors_are_relayed [where env = sample_env and tool_name = "''foo''"
      and args = "PDict []" and w = "[]" and known = "''execute_bash''"
      and e = "TypeError (missing_arguments ''execute_bash'')" and ?w1.0 = "[]" and rc = 0
      and maxr = 3 and gw = gw_two_errors_then_answer and st = st and resp = "[]"
      and c = None and tcs = two_requests and ?w2.0 = "[]"]
  have unknown: "''foo'' \<notin> set tool_names" by code_simp
  have known: "''execute_bash'' \<in> set tool_names" by code_simp
  have raises: "run_handler sample_env ''execute_bash'' (PDict []) []
       = (Inl (TypeError (missing_arguments ''execute_bash'')), [])"
    by code_simp
  have r1: "execute_tool sample_env ''foo'' (PDict []) []
       = (''Error: Unknown tool '' @ [CHR 0x27] @ ''foo'' @ [CHR 0x27], [])"
    using relayed unknown by blast
  have "execute_tool sample_env ''execute_bash'' (PDict []) []
       = (''Error executing '' @ ''execute_bash'' @ '': ''
          @ exn_str (TypeError (missing_arguments ''execute_bash'')), [])"
    using relayed known raises by blast
  then have r2: "execute_tool sample_env ''execute_bash'' (PDict []) []
       = (''Error executing execute_bash: '' @ missing_arguments ''execute_bash'', [])"
    by simp
  have reply: "gw_two_errors_then_answer (full_messages st) (offered_tools (st_agent st))
        (st_world st) = (Inr ([] @ [AssistantMsg None (Some two_requests)]), [])"
    unfolding st_def by code_simp
  have parsed: "list_all (\<lambda>tc. tc_name tc \<noteq> ''use_skill''
                  \<and> parse_tool_args sample_env (tc_arguments tc) (tc_name tc)
                      = Inr (PDict [], None)) two_requests"
    by code_simp
  have p1: "parse_tool_args sample_env (tc_arguments t1) (tc_name t1) = Inr (PDict [], None)"
    and p2: "parse_tool_args sample_env (tc_arguments t2) (tc_name t2) = Inr (PDict [], None)"
    using parsed by (simp_all add: two)
  have requests: "\<forall>tc \<in> set two_requests. tc_name tc \<noteq> ''use_skill''
               \<and> (\<exists>r. parse_tool_args sample_env (tc_arguments tc) (tc_name tc) = Inr r)"
    using parsed by (auto simp: list_all_iff)
  have budget: "(0::int) < 3" "(0::int) + 1 < 3" by simp_all
  have hyps: "(0::int) < 3
        \<and> gw_two_errors_then_answer (full_messages st) (offered_tools (st_agent st)) (st_world st)
            = (Inr ([] @ [AssistantMsg None (Some two_requests)]), [])
        \<and> (\<forall>tc \<in> set two_requests. tc_name tc \<noteq> ''use_skill''
               \<and> (\<exists>r. parse_tool_args sample_env (tc_arguments tc) (tc_name tc) = Inr r))"
    using budget(1) reply requests by (intro conjI)
  from relayed [THEN conjunct2, THEN conjunct2, THEN conjunct2, THEN conjunct1, THEN mp, OF hyps]
  obtain st2 rs where
    round: "chat_round sample_env gw_two_errors_then_answer st = (None, st2)"
    and msgs: "full_messages st2 =
             full_messages st @ [] @ [AssistantMsg None (Some two_requests)]
             @ map (\<lambda>(tc, r). ToolMsg (tc_id tc) (tc_name tc) r) (zip two_requests rs)"
    and texts: "list_all2
                (\<lambda>tc r.
                   (\<forall>a. parse_tool_args sample_env (tc_arguments tc) (tc_name tc) = Inr (a, None) \<longrightarrow>
                        (\<exists>w. r = fst (execute_tool sample_env (tc_name tc) a w)))
                   \<and> (\<forall>a m. parse_tool_args sample_env (tc_arguments tc) (tc_name tc)
                               = Inr (a, Some m)
                             \<and> m \<noteq> [] \<longrightarrow> r = m))
                two_requests rs"
    and step: "chat_loop sample_env gw_two_errors_then_answer 3 0 st
                 = chat_loop sample_env gw_two_errors_then_answer 3 (0 + 1) st2"
    and below: "(0::int) + 1 < 3 \<longrightarrow>
                 (\<exists>ext. gateway_calls (snd (chat_loop sample_env gw_two_errors_then_answer 3 0 st))
                          = gateway_calls st @ [full_messages st, full_messages st2] @ ext)"
    and at_limit: "\<not> (0::int) + 1 < 3 \<longrightarrow>
                 chat_loop sample_env gw_two_errors_then_answer 3 0 st
                   = (Inr (last (full_messages st2)), st2)"
    by (elim exE conjE) (rule that; assumption)
  from below budget(2)
  have again: "\<exists>ext. gateway_calls (snd (chat_loop sample_env gw_two_errors_then_answer 3 0 st))
                  = gateway_calls st @ [full_messages st, full_messages st2] @ ext"
    by (rule mp)
  from texts obtain x1 x2 where rs: "rs = [x1, x2]"
    and x1: "\<exists>w. x1 = fst (execute_tool sample_env (tc_name t1) (PDict []) w)"
    and x2: "\<exists>w. x2 = fst (execute_tool sample_env (tc_name t2) (PDict []) w)"
    using p1 p2 by (auto simp: two list_all2_Cons1)
  have v1: "x1 = ''Error: Unknown tool '' @ [CHR 0x27] @ ''foo'' @ [CHR 0x27]"
    using x1 by (auto simp: t1_def execute_tool_def tool_names_def)
  have v2: "x2 = ''Error executing execute_bash: '' @ missing_arguments ''execute_bash''"
    using x2 by (auto simp: t2_def execute_tool_def tool_names_def sample_env_simps)
  have "full_messages st2 =
          full_messages st
          @ [AssistantMsg None (Some two_requests),
             ToolMsg ''call_1'' ''foo''
               (''Error: Unknown tool '' @ [CHR 0x27] @ ''foo'' @ [CHR 0x27]),
             ToolMsg ''call_2'' ''execute_bash''
               (''Error executing execute_bash: '' @ missing_arguments ''execute_bash'')]"
    unfolding msgs rs v1 v2 by (simp add: two t1_def t2_def)
  moreover have "gateway_calls st = []" by (simp add: st_def sample_state_def)
  ultimately have called: "\<exists>ext. gateway_calls (snd (chat_loop sample_env
                                   gw_two_errors_then_answer 3 0 st))
         = [full_messages st,
            full_messages st
              @ [AssistantMsg None (Some two_requests),
                 ToolMsg ''call_1'' ''foo''
                   (''Error: Unknown tool '' @ [CHR 0x27] @ ''foo'' @ [CHR 0x27]),
                 ToolMsg ''call_2'' ''execute_bash''
                   (''Error executing execute_bash: '' @ missing_arguments ''execute_bash'')]]
           @ ext"
    using again by simp
  have reply': "gw_two_errors_then_answer (full_messages st) (offered_tools (st_agent st))
        (st_world st) = (Inr [AssistantMsg None (Some two_requests)], [])"
    using reply by simp
  define su where "su = sample_state gw_unknown_then_answer 3"
  note single = tool_errors_are_relayed [where env = sample_env and rc = 0 and maxr = 3
      and gw = gw_unknown_then_answer and st = su and c = None and tc = t1 and ?w2.0 = "[]"
      and a = "PDict []"
      and reply = "''Error: Unknown tool '' @ [CHR 0x27] @ ''foo'' @ [CHR 0x27]"
      and ?w3.0 = "[]"]
  have reply1: "gw_unknown_then_answer (full_messages su) (offered_tools (st_agent su)) (st_world su)
       = (Inr [AssistantMsg None (Some [t1])], [])"
    unfolding su_def t1_def by code_simp
  have name1: "tc_name t1 \<noteq> ''use_skill''" "tc_name t1 = ''foo''" "tc_id t1 = ''call_1''"
    "tc_arguments t1 = PStr ''{}''"
    by (simp_all add: t1_def)
  have parsed1: "parse_tool_args sample_env (PStr ''{}'') ''foo'' = Inr (PDict [], None)"
    by code_simp
  have hyps1: "(0::int) < 3
        \<and> gw_unknown_then_answer (full_messages su) (offered_tools (st_agent su)) (st_world su)
            = (Inr [AssistantMsg None (Some [t1])], [])
        \<and> tc_name t1 \<noteq> ''use_skill''
        \<and> parse_tool_args sample_env (tc_arguments t1) (tc_name t1) = Inr (PDict [], None)
        \<and> execute_tool sample_env (tc_name t1) (PDict []) []
            = (''Error: Unknown tool '' @ [CHR 0x27] @ ''foo'' @ [CHR 0x27], [])"
    using budget(1) reply1 name1(1) parsed1 r1 unfolding name1(2) name1(4) by (intro conjI)
  note exact = single [THEN conjunct2, THEN conjunct2, THEN conjunct2, THEN conjunct2,
      THEN mp, OF hyps1, unfolded Let_def]
  from exact [THEN conjunct2, THEN conjunct2, THEN conjunct1] budget(2)
  have "\<exists>ext. gateway_calls (snd (chat_loop sample_env gw_unknown_then_answer 3 0 su))
         = gateway_calls su @ [full_messages su,
              full_messages (su\<lparr>st_world := [],
                      gateway_calls := gateway_calls su @ [full_messages su],
                      full_messages := full_messages su
                        @ [AssistantMsg None (Some [t1]),
                           ToolMsg (tc_id t1) (tc_name t1)
                             (''Error: Unknown tool '' @ [CHR 0x27] @ ''foo'' @ [CHR 0x27])]\<rparr>)]
            @ ext"
    by (rule mp)
  moreover have "gateway_calls su = []" by (simp add: su_def sample_state_def)
  ultimately have called1: "\<exists>ext. gateway_calls (snd (chat_loop sample_env
                                   gw_unknown_then_answer 3 0 su))
         = [full_messages su,
            full_messages su @ [AssistantMsg None (Some [t1]),
                 ToolMsg ''call_1'' ''foo''
                   (''Error: Unknown tool '' @ [CHR 0x27] @ ''foo'' @ [CHR 0x27])]] @ ext"
    by (simp add: name1)
  show ?thesis
    using unknown r1 known raises r2 budget(1) reply' parsed called reply1 parsed1 called1
    unfolding st_def su_def t1_def by (intro conjI)
qed

text \<open>
  Claim C4 as it was stated fails in three ways. In the last round the limit allows: with
  a limit of one round and a backend that requests the unknown tool \<open>foo\<close>, the tool
  message with the error is appended, no further round follows, and \<open>chat\<close> returns that
  tool message. When a later request of the same reply is for \<open>use_skill\<close> with arguments
  that are no JSON object: the error of \<open>foo\<close> is relayed, and then \<open>chat\<close> ends with
  \<open>AttributeError\<close>, below the limit, after one gateway call. And when the arguments of a
  later request make the JSON parser raise: the error of \<open>foo\<close> is relayed, and then
  \<open>chat\<close> ends with \<open>ValueError\<close>.
\<close>

theorem relayed_error_can_end_the_chat:
  "fst (BaseAgent_chat sample_env (sample_agent gw_unknown_then_answer 1) [UserMsg ''hi''] [])
     = Inr (ToolMsg ''call_1'' ''foo'' (''Error: Unknown tool '' @ [CHR 0x27] @ ''foo'' @ [CHR 0x27]))
   \<and> length (gateway_calls (snd (BaseAgent_chat sample_env
                (sample_agent gw_unknown_then_answer 1) [UserMsg ''hi''] []))) = 1
   \<and> fst (BaseAgent_chat sample_env (sample_agent gw_unknown_then_bad_skill 3)
            [UserMsg ''hi''] [])
       = Inl (no_attribute_get (PList []))
   \<and> last (full_messages (snd (BaseAgent_chat sample_env
                (sample_agent gw_unknown_then_bad_skill 3) [UserMsg ''hi''] [])))
       = ToolMsg ''call_1'' ''foo'' (''Error: Unknown tool '' @ [CHR 0x27] @ ''foo'' @ [CHR 0x27])
   \<and> length (gateway_calls (snd (BaseAgent_chat sample_env
                (sample_agent gw_unknown_then_bad_skill 3) [UserMsg ''hi''] []))) = 1
   \<and> fst (BaseAgent_chat sample_env (sample_agent gw_unknown_then_huge_integer 3)
            [UserMsg ''hi''] [])
       = Inl (ValueError digit_limit_message)
   \<and> last (full_messages (snd (BaseAgent_chat sample_env
                (sample_agent gw_unknown_then_huge_integer 3) [UserMsg ''hi''] [])))
       = ToolMsg ''call_1'' ''foo'' (''Error: Unknown tool '' @ [CHR 0x27] @ ''foo'' @ [CHR 0x27])
   \<and> length (gateway_calls (snd (BaseAgent_chat sample_env
                (sample_agent gw_unknown_then_huge_integer 3) [UserMsg ''hi''] []))) = 1"
  by code_simp

text \<open>
  Claim C9. With an initialised client, \<open>LLMClient.chat\<close> always returns exactly one
  assistant message and never an exception; when the backend call fails, that message has
  the content \<open>Error: <message>\<close> and no tool calls. The loop takes it for a plain reply:
  \<open>chat\<close> returns it in that very round.
\<close>

theorem backend_failure_becomes_reply:
  "(\<exists>c t. fst (LLMClient_chat (Some create) messages tools w) = Inr [AssistantMsg c t])
   \<and> (create messages (if tools \<noteq> [] then Some tools else None) w = (Inl e, w1) \<longrightarrow>
        LLMClient_chat (Some create) messages tools w
          = (Inr [AssistantMsg (Some (''Error: '' @ exn_str e)) None], w1))
   \<and> (rc < maxr
        \<and> create (full_messages st) (Some (offered_tools (st_agent st))) (st_world st) = (Inl e, w2)
        \<longrightarrow>
        chat_loop env (LLMClient_chat (Some create)) maxr rc st
          = (Inr (AssistantMsg (Some (''Error: '' @ exn_str e)) None),
             st\<lparr>st_world := w2, gateway_calls := gateway_calls st @ [full_messages st],
                full_messages := full_messages st
                  @ [AssistantMsg (Some (''Error: '' @ exn_str e)) None]\<rparr>))"
proof (intro conjI impI)
  show "\<exists>c t. fst (LLMClient_chat (Some create) messages tools w) = Inr [AssistantMsg c t]"
    by (cases "create messages (if tools \<noteq> [] then Some tools else None) w")
       (auto simp: LLMClient_chat_def split: sum.splits list.splits option.splits)
next
  assume "create messages (if tools \<noteq> [] then Some tools else None) w = (Inl e, w1)"
  then show "LLMClient_chat (Some create) messages tools w
          = (Inr [AssistantMsg (Some (''Error: '' @ exn_str e)) None], w1)"
    by (simp add: LLMClient_chat_def)
next
  assume a: "rc < maxr
        \<and> create (full_messages st) (Some (offered_tools (st_agent st))) (st_world st) = (Inl e, w2)"
  then have "LLMClient_chat (Some create) (full_messages st) (offered_tools (st_agent st))
               (st_world st)
             = (Inr ([] @ [AssistantMsg (Some (''Error: '' @ exn_str e)) None]), w2)"
    by (simp add: LLMClient_chat_def offered_tools_nonempty)
  from chat_round_plain [of "LLMClient_chat (Some create)" st "[]"
      "Some (''Error: '' @ exn_str e)" w2 env, OF this] a
  show "chat_loop env (LLMClient_chat (Some create)) maxr rc st
          = (Inr (AssistantMsg (Some (''Error: '' @ exn_str e)) None),
             st\<lparr>st_world := w2, gateway_calls := gateway_calls st @ [full_messages st],
                full_messages := full_messages st
                  @ [AssistantMsg (Some (''Error: '' @ exn_str e)) None]\<rparr>)"
    by (simp add: chat_loop_stop)
qed

theorem backend_failure_becomes_reply_witness:
  "failing_backend [UserMsg ''hi''] (Some tool_names) [] = (Inl (Raised ''Connection error.''), [])
   \<and> LLMClient_chat (Some failing_backend) [UserMsg ''hi''] tool_names []
       = (Inr [AssistantMsg (Some ''Error: Connection error.'') None], [])
   \<and> (0::int) < 3
   \<and> fst (chat_loop sample_env (LLMClient_chat (Some failing_backend)) 3 0
             (sample_state (LLMClient_chat (Some failing_backend)) 3))
       = Inr (AssistantMsg (Some ''Error: Connection error.'') None)
   \<and> gateway_calls (snd (chat_loop sample_env (LLMClient_chat (Some failing_backend)) 3 0
             (sample_state (LLMClient_chat (Some failing_backend)) 3)))
       = [full_messages (sample_state (LLMClient_chat (Some failing_backend)) 3)]"
proof -
  define st where "st = sample_state (LLMClient_chat (Some failing_backend)) 3"
  note failure = backend_failure_becomes_reply [where create = failing_backend
      and messages = "[UserMsg ''hi'']" and tools = tool_names and w = "[]"
      and e = "Raised ''Connection error.''" and ?w1.0 = "[]" and rc = 0 and maxr = 3
      and st = st and ?w2.0 = "[]" and env = sample_env]
  have tools: "tool_names \<noteq> []" by code_simp
  have fails: "failing_backend [UserMsg ''hi''] (Some tool_names) [] = (Inl (Raised ''Connection error.''), [])"
    by code_simp
  have "LLMClient_chat (Some failing_backend) [UserMsg ''hi''] tool_names []
       = (Inr [AssistantMsg (Some (''Error: '' @ exn_str (Raised ''Connection error.''))) None], [])"
    using failure fails tools by simp
  then have reply: "LLMClient_chat (Some failing_backend) [UserMsg ''hi''] tool_names []
       = (Inr [AssistantMsg (Some ''Error: Connection error.'') None], [])"
    by simp
  have fails2: "failing_backend (full_messages st) (Some (offered_tools (st_agent st))) (st_world st)
       = (Inl (Raised ''Connection error.''), [])"
    by (simp add: failing_backend_def st_def sample_state_def)
  have budget: "(0::int) < 3" by simp
  have loop: "chat_loop sample_env (LLMClient_chat (Some failing_backend)) 3 0 st
          = (Inr (AssistantMsg (Some (''Error: '' @ exn_str (Raised ''Connection error.''))) None),
             st\<lparr>st_world := [], gateway_calls := gateway_calls st @ [full_messages st],
                full_messages := full_messages st
                  @ [AssistantMsg (Some (''Error: '' @ exn_str (Raised ''Connection error.''))) None]\<rparr>)"
    using failure fails2 budget by blast
  have r: "fst (chat_loop sample_env (LLMClient_chat (Some failing_backend)) 3 0 st)
       = Inr (AssistantMsg (Some ''Error: Connection error.'') None)"
    unfolding loop by simp
  have g: "gateway_calls (snd (chat_loop sample_env (LLMClient_chat (Some failing_backend)) 3 0 st))
       = [full_messages st]"
    unfolding loop by (simp add: st_def sample_state_def)
  show ?thesis
    using fails reply budget r g unfolding st_def by (intro conjI)
qed

section \<open>Running the loop on the sample backends\<close>

text \<open>
  Claim C1, evaluated. The catalog holds \<open>pptx\<close> and \<open>open\<close>; the backend's first reply
  asks to activate \<open>pptx\<close>, its second is plain text. The chat returns the plain reply
  and \<open>pptx\<close> is in
  \<open>activated_skills\<close> afterwards, with its body. Both gateway calls were given the same
  system message, the one built before the loop: it has the catalog summary but no
  \<open>Activated Skills\<close> section and nothing of the body. Only the system message of a
  following \<open>chat\<close> call contains them.
\<close>

theorem activated_body_missing_from_next_prompt:
  "fst (BaseAgent_chat sample_env (sample_agent gw_activate_then_answer 100)
          [UserMsg ''make slides''] []) = Inr (AssistantMsg (Some ''Done.'') None)
   \<and> activated_skills (st_agent (snd (BaseAgent_chat sample_env
          (sample_agent gw_activate_then_answer 100) [UserMsg ''make slides''] [])))
       = [(PStr ''pptx'', pptx_skill_md)]
   \<and> map hd (gateway_calls (snd (BaseAgent_chat sample_env
          (sample_agent gw_activate_then_answer 100) [UserMsg ''make slides''] [])))
       = [SystemMsg (system_content sample_env (sample_agent gw_activate_then_answer 100)),
          SystemMsg (system_content sample_env (sample_agent gw_activate_then_answer 100))]
   \<and> find_sub ''- **pptx**: create PowerPoint files''
         (system_content sample_env (sample_agent gw_activate_then_answer 100)) \<noteq> None
   \<and> find_sub ''Activated Skills''
         (system_content sample_env (sample_agent gw_activate_then_answer 100)) = None
   \<and> find_sub ''Use python-pptx''
         (system_content sample_env (sample_agent gw_activate_then_answer 100)) = None
   \<and> find_sub (''## Activated Skills (Level 2)'' @ nl @ nl @ ''### Skill: pptx'' @ nl @ nl
                 @ pptx_skill_md)
         (system_content sample_env (st_agent (snd (BaseAgent_chat sample_env
            (sample_agent gw_activate_then_answer 100) [UserMsg ''make slides''] []))))
       \<noteq> None"
  by code_simp

text \<open>
  Claim C2, evaluated. The round limit is 3 and every reply of the backend carries one
  tool-call request, for \<open>use_skill\<close> with the JSON text \<open>[]\<close> as arguments. The text
  parses (to a list), so no parse error is reported, and \<open>args.get\<close> raises
  \<open>AttributeError\<close>: \<open>chat\<close> ends with that exception after one gateway call.
\<close>

theorem bad_use_skill_arguments_raise:
  "fst (BaseAgent_chat sample_env (sample_agent gw_bad_use_skill 3) [UserMsg ''make slides''] [])
     = Inl (AttributeError ([CHR 0x27] @ ''list'' @ [CHR 0x27] @ '' object has no attribute ''
                            @ [CHR 0x27] @ ''get'' @ [CHR 0x27]))
   \<and> length (gateway_calls (snd (BaseAgent_chat sample_env (sample_agent gw_bad_use_skill 3)
                 [UserMsg ''make slides''] []))) = 1"
  by code_simp

text \<open>The same limit with a backend that always asks for a directory listing (without
  the path, which the handler refuses): three gateway calls, and the last tool message is
  returned.\<close>

lemma listing_backend_uses_all_rounds:
  "fst (BaseAgent_chat sample_env (sample_agent gw_always_list_files 3) [UserMsg ''hi''] [])
     = Inr (ToolMsg ''call_1'' ''list_files''
              (''Error executing list_files: '' @ missing_arguments ''list_files''))
   \<and> length (gateway_calls (snd (BaseAgent_chat sample_env
               (sample_agent gw_always_list_files 3) [UserMsg ''hi''] []))) = 3"
  by code_simp

text \<open>
  Claim C5, evaluated. The reply carries the requests A (\<open>read_file\<close>), B (\<open>use_skill\<close>
  with the arguments \<open>[]\<close>) and C (\<open>list_files\<close>). The tool message of A is appended (the
  handler's complaint about the missing path, as a text); B raises \<open>AttributeError\<close>,
  which ends \<open>chat\<close>; no tool message is appended for B or C.
\<close>

theorem tool_messages_stop_at_raise:
  "fst (BaseAgent_chat sample_env (sample_agent gw_three_calls 3) [UserMsg ''make slides''] [])
     = Inl (AttributeError ([CHR 0x27] @ ''list'' @ [CHR 0x27] @ '' object has no attribute ''
                            @ [CHR 0x27] @ ''get'' @ [CHR 0x27]))
   \<and> drop 2 (full_messages (snd (BaseAgent_chat sample_env (sample_agent gw_three_calls 3)
                 [UserMsg ''make slides''] [])))
     = [AssistantMsg None
            (Some [\<lparr>tc_id = ''call_A'', tc_name = ''read_file'', tc_arguments = PStr ''{}''\<rparr>,
                   \<lparr>tc_id = ''call_B'', tc_name = ''use_skill'', tc_arguments = PStr ''[]''\<rparr>,
                   \<lparr>tc_id = ''call_C'', tc_name = ''list_files'', tc_arguments = PStr ''{}''\<rparr>]),
        ToolMsg ''call_A'' ''read_file''
          (''Error executing read_file: '' @ missing_arguments ''read_file'')]"
  by code_simp

end
